theory Spec2Isabelle
  imports Complex_Main
begin

unbundle bit_operations_syntax

section \<open>Python values and built-ins used by the loader\<close>

text \<open>
  The loader of \<^verbatim>\<open>src/beatmap.py\<close> reads a text file into a list of lines and folds over
  them. A Python \<^verbatim>\<open>str\<close> is modelled as a \<^typ>\<open>string\<close>, one \<^typ>\<open>char\<close> per code point,
  so the embedding covers the code points below 256. Python's \<^verbatim>\<open>int\<close> is \<^typ>\<open>int\<close>.
  A \<^verbatim>\<open>Decimal\<close> is modelled by the rational number it denotes: products, sums and
  comparisons of finite decimals are exact in Python as long as the coefficient fits
  the context precision of 28 digits, while a quotient is rounded to 28 significant
  digits in Python and is exact here. The literals \<^verbatim>\<open>Infinity\<close> and \<^verbatim>\<open>NaN\<close>, which
  \<^verbatim>\<open>Decimal\<close> accepts, have no rational value: the embedding stops on them with the
  error \<open>NonFinite\<close>, which stands for no Python exception.

  Every exception the code can raise is a value of the type \<open>error\<close>, and a function
  that can raise returns \<open>error + 'a\<close>.
\<close>

datatype error =
    ValueError
  | IndexError
  | AttributeError
  | InvalidOperation
  | DivisionByZero
  | NonFinite

fun rbind :: "error + 'a \<Rightarrow> ('a \<Rightarrow> error + 'b) \<Rightarrow> error + 'b" where
  "rbind (Inl e) f = Inl e"
| "rbind (Inr v) f = f v"

fun map_r :: "('a \<Rightarrow> error + 'b) \<Rightarrow> 'a list \<Rightarrow> error + 'b list" where
  "map_r f [] = Inr []"
| "map_r f (x # xs) = rbind (f x) (\<lambda>y. rbind (map_r f xs) (\<lambda>ys. Inr (y # ys)))"

text \<open>\<^verbatim>\<open>str.isspace\<close> on the code points below 256.\<close>

definition py_isspace :: "char \<Rightarrow> bool" where
  "py_isspace c = (c \<in> set [CHR 0x09, CHR 0x0A, CHR 0x0B, CHR 0x0C, CHR 0x0D,
                             CHR 0x1C, CHR 0x1D, CHR 0x1E, CHR 0x1F, CHR 0x20,
                             CHR 0x85, CHR 0xA0])"

definition rstrip :: "string \<Rightarrow> string" where
  "rstrip s = rev (dropWhile py_isspace (rev s))"

definition strip :: "string \<Rightarrow> string" where
  "strip s = dropWhile py_isspace (rstrip s)"

text \<open>\<^verbatim>\<open>s.split(sep)\<close> for a separator of one character: never an empty list.\<close>

fun py_split :: "char \<Rightarrow> string \<Rightarrow> string list" where
  "py_split sep [] = [[]]"
| "py_split sep (c # cs) =
     (if c = sep then [] # py_split sep cs
      else (case py_split sep cs of
              [] \<Rightarrow> [[c]]
            | w # ws \<Rightarrow> (c # w) # ws))"

text \<open>\<^verbatim>\<open>s.split(sep, maxsplit=1)\<close>: split at the first separator only.\<close>

definition py_split1 :: "char \<Rightarrow> string \<Rightarrow> string list" where
  "py_split1 sep s =
     (if sep \<in> set s
      then [takeWhile (\<lambda>c. c \<noteq> sep) s, tl (dropWhile (\<lambda>c. c \<noteq> sep) s)]
      else [s])"

definition is_digit :: "char \<Rightarrow> bool" where
  "is_digit c = (c \<in> set ''0123456789'')"

definition digit_val :: "char \<Rightarrow> nat" where
  "digit_val c = of_char c - 48"

text \<open>
  \<^verbatim>\<open>int(s)\<close> on a string: surrounding whitespace is dropped, an optional sign follows,
  then decimal digits, with single underscores allowed between two digits. Anything
  else raises \<^verbatim>\<open>ValueError\<close>. The flag of \<open>int_body\<close> says that the previous
  character was a digit.
\<close>

fun int_body :: "bool \<Rightarrow> nat \<Rightarrow> string \<Rightarrow> nat option" where
  "int_body prev acc [] = (if prev then Some acc else None)"
| "int_body prev acc (c # cs) =
     (if is_digit c then int_body True (10 * acc + digit_val c) cs
      else if c = CHR ''_'' \<and> prev then int_body False acc cs
      else None)"

definition py_int :: "string \<Rightarrow> error + int" where
  "py_int s =
     (case strip s of
        [] \<Rightarrow> Inl ValueError
      | c # cs \<Rightarrow>
          (if c = CHR ''-'' then
             (case int_body False 0 cs of None \<Rightarrow> Inl ValueError | Some n \<Rightarrow> Inr (- int n))
           else if c = CHR ''+'' then
             (case int_body False 0 cs of None \<Rightarrow> Inl ValueError | Some n \<Rightarrow> Inr (int n))
           else
             (case int_body False 0 (c # cs) of None \<Rightarrow> Inl ValueError | Some n \<Rightarrow> Inr (int n))))"

text \<open>
  \<^verbatim>\<open>Decimal(s)\<close> on a string: surrounding whitespace is dropped, every underscore is
  removed, and what is left is an optional sign, digits with an optional point (at
  least one digit in all) and an optional exponent. A syntax error raises
  \<^verbatim>\<open>decimal.InvalidOperation\<close>.
\<close>

definition lower :: "char \<Rightarrow> char" where
  "lower c = (if (65::nat) \<le> of_char c \<and> of_char c \<le> (90::nat)
              then char_of (of_char c + (32::nat)) else c)"

definition digits_val :: "string \<Rightarrow> nat" where
  "digits_val ds = foldl (\<lambda>acc c. 10 * acc + digit_val c) 0 ds"

definition pow10 :: "int \<Rightarrow> rat" where
  "pow10 e = (if 0 \<le> e then 10 ^ nat e else 1 / 10 ^ nat (- e))"

definition split_sign :: "string \<Rightarrow> bool \<times> string" where
  "split_sign s =
     (case s of
        [] \<Rightarrow> (False, [])
      | c # cs \<Rightarrow> if c = CHR ''-'' then (True, cs)
                  else if c = CHR ''+'' then (False, cs)
                  else (False, c # cs))"

definition non_finite_literal :: "string \<Rightarrow> bool" where
  "non_finite_literal u =
     (let l = map lower u in
      l = ''inf'' \<or> l = ''infinity''
      \<or> (take 3 l = ''nan'' \<and> list_all is_digit (drop 3 l))
      \<or> (take 4 l = ''snan'' \<and> list_all is_digit (drop 4 l)))"

definition exponent :: "string \<Rightarrow> int option" where
  "exponent s =
     (let (neg, ds) = split_sign s in
      if ds \<noteq> [] \<and> list_all is_digit ds
      then Some (if neg then - int (digits_val ds) else int (digits_val ds))
      else None)"

definition py_decimal :: "string \<Rightarrow> error + rat" where
  "py_decimal s =
     (let (neg, u) = split_sign (filter (\<lambda>c. c \<noteq> CHR ''_'') (strip s));
          ip = takeWhile is_digit u;
          r1 = dropWhile is_digit u;
          (fp, r2) = (case r1 of
                        [] \<Rightarrow> ([], [])
                      | c # r \<Rightarrow> if c = CHR ''.''
                                 then (takeWhile is_digit r, dropWhile is_digit r)
                                 else ([], c # r));
          mant = (if neg then - of_nat (digits_val (ip @ fp)) else of_nat (digits_val (ip @ fp)))
      in if non_finite_literal u then Inl NonFinite
         else if ip = [] \<and> fp = [] then Inl InvalidOperation
         else (case r2 of
                 [] \<Rightarrow> Inr (mant * pow10 (- int (length fp)))
               | c # r3 \<Rightarrow>
                   if lower c = CHR ''e'' then
                     (case exponent r3 of
                        None \<Rightarrow> Inl InvalidOperation
                      | Some ex \<Rightarrow> Inr (mant * pow10 (ex - int (length fp))))
                   else Inl InvalidOperation))"

text \<open>
  Division of decimals: a zero divisor raises \<^verbatim>\<open>DivisionByZero\<close>, or
  \<^verbatim>\<open>InvalidOperation\<close> when the dividend is zero too.
\<close>

definition dec_div :: "rat \<Rightarrow> rat \<Rightarrow> error + rat" where
  "dec_div a b =
     (if b = 0 then (if a = 0 then Inl InvalidOperation else Inl DivisionByZero)
      else Inr (a / b))"

section \<open>The data model of \<^verbatim>\<open>src/beatmap.py\<close>\<close>

text \<open>
  Each dataclass is a record and each \<^verbatim>\<open>Enum\<close> a datatype. A member that several enums
  share carries the enum's name in front. A field whose name is also the name of a field
  of another class, or of a constant of the library, carries a suffix: \<open>_tp\<close> on a
  timing point, \<open>_list\<close> on the list inside \<^verbatim>\<open>Events\<close> and \<^verbatim>\<open>Colors\<close>; the position
  \<^verbatim>\<open>x\<close>, \<^verbatim>\<open>y\<close> of a hit object is \<open>x_pos\<close>, \<open>y_pos\<close>, its \<^verbatim>\<open>type\<close> is \<open>obj_type\<close>,
  and the \<^verbatim>\<open>length\<close> of a slider is \<open>length_px\<close>.

  Python lets a field hold a value of another type than its default: \<^verbatim>\<open>countdown\<close>
  starts as a member of \<^verbatim>\<open>Countdown\<close> and is assigned an \<^verbatim>\<open>int\<close>. Such a field has the
  type \<open>field_val\<close>.
\<close>

datatype ('e, 'r) field_val = Member 'e | Raw 'r

datatype Countdown = Countdown_NO_COUNTDOWN | Countdown_NORMAL | Countdown_HALF | Countdown_DOUBLE

datatype SampleSet = SampleSet_NORMAL | SampleSet_SOFT | SampleSet_DRUM

datatype GameMode = STANDARD | TAIKO | CATCH | MANIA

datatype OverlayPosition = NO_CHANGE | BELOW | ABOVE

record General =
  audio_filename :: string
  audio_lead_in :: int
  audio_hash :: string
  preview_time :: int
  countdown :: "(Countdown, int) field_val"
  sample_set :: "(SampleSet, string) field_val"
  stack_leniency :: rat
  mode :: "(GameMode, int) field_val"
  letterbox_in_breaks :: bool
  story_fire_in_front :: bool
  use_skin_sprites :: bool
  always_show_playfield :: bool
  overlay_position :: "(OverlayPosition, string) field_val"
  skin_preference :: string
  epilepsy_warning :: bool
  countdown_offset :: int
  special_style :: bool
  widescreen_storyboard :: bool
  samples_match_playback_rate :: bool

record Editor =
  distance_spacing :: rat
  beat_divisor :: int
  grid_size :: int
  timeline_zoom :: rat
  bookmarks :: "int list"

record Metadata =
  title :: string
  title_unicode :: string
  artist :: string
  artist_unicode :: string
  creator :: string
  version :: string
  source :: string
  tags :: "string list"
  beatmap_id :: int
  beatmap_set_id :: int

record Difficulty =
  hp_drain_rate :: rat
  circle_size :: rat
  overall_difficulty :: rat
  approach_rate :: rat
  slider_multiplier :: rat
  slider_tick_rate :: rat

datatype Event =
    Background int string int int
  | Video int string int int
  | Break int

record Events =
  events_list :: "Event list"

datatype TimingPointSampleSet = DEFAULT | NORMAL | SOFT | DRUM

record Effects =
  kiai_time :: bool
  bar_line :: bool

record TimingPoint =
  time_tp :: rat
  meter :: int
  sample_set_tp :: int
  sample_index :: int
  volume_tp :: int
  uninherited :: bool
  effects :: Effects
  beat_duration :: rat
  sv_multiplier :: rat

record Colors =
  colors_list :: "int list list"
  slider_track_override :: "int list option"
  slider_border :: "int list option"

datatype HitObjectType = HIT_CIRCLE | SLIDER | SPINNER | HOLD_NOTE

record HitSound =
  normal :: bool
  whistle :: bool
  finish :: bool
  clap :: bool

record HitSample =
  normal_set :: TimingPointSampleSet
  addition_set :: TimingPointSampleSet
  index :: int
  volume :: int
  filename :: string

datatype CurveType = BEZIER | CATMULL | LINEAR | PERFECT

type_synonym point = "int \<times> int"

record Curve =
  curve_type :: CurveType
  curve_points :: "point list"

text \<open>
  \<^verbatim>\<open>HitObject\<close> has the subclasses \<^verbatim>\<open>HitCircle\<close>, \<^verbatim>\<open>Slider\<close> and \<^verbatim>\<open>Spinner\<close>. The fields
  of the base class are the record \<open>HitObject\<close>; what a subclass adds is a value of
  \<open>HitObjectExt\<close>. The field \<^verbatim>\<open>timing_point\<close> of a slider refers to an object of the
  beatmap's list \<^verbatim>\<open>timing_points\<close>: it is the position of that object in the list.
\<close>

record SliderFields =
  curves :: "Curve list"
  slides :: int
  length_px :: rat
  edge_sounds :: "int list"
  edge_sets :: "(TimingPointSampleSet \<times> TimingPointSampleSet) list"
  end_time :: rat
  duration :: rat
  timing_point :: "nat option"

datatype HitObjectExt =
    HitCircle
  | Slider SliderFields
  | Spinner int

record HitObject =
  x_pos :: int
  y_pos :: int
  time :: int
  obj_type :: HitObjectType
  hit_sound :: HitSound
  new_combo :: bool
  combo_to_skip :: int
  hit_sample :: HitSample
  ext :: HitObjectExt

record Beatmap =
  general :: General
  editor :: Editor
  metadata :: Metadata
  difficulty :: Difficulty
  events :: Events
  timing_points :: "TimingPoint list"
  colors :: Colors
  hit_objects :: "HitObject list"

datatype Section =
    GENERAL | EDITOR | METADATA | DIFFICULTY | EVENTS | TIMING_POINTS | COLORS | HIT_OBJECTS

section \<open>Bit-flag decoders\<close>

text \<open>\<^verbatim>\<open>x << n\<close> is \<open>push_bit n x\<close> and \<^verbatim>\<open>&\<close> is \<open>AND\<close>; \<^verbatim>\<open>bool(v)\<close> is \<open>v \<noteq> 0\<close>.\<close>

definition create_effects :: "int \<Rightarrow> Effects" where
  "create_effects x =
     \<lparr>kiai_time = (push_bit 0 x AND 1 \<noteq> 0),
      bar_line = (push_bit 3 x AND 1 \<noteq> 0)\<rparr>"

definition create_hit_sound :: "int \<Rightarrow> HitSound" where
  "create_hit_sound x =
     \<lparr>normal = (push_bit 0 x AND 1 \<noteq> 0),
      whistle = (push_bit 1 x AND 1 \<noteq> 0),
      finish = (push_bit 2 x AND 1 \<noteq> 0),
      clap = (push_bit 3 x AND 1 \<noteq> 0)\<rparr>"

text \<open>The call \<^verbatim>\<open>HitObjectType(v)\<close> looks a member up by value.\<close>

definition HitObjectType_of :: "int \<Rightarrow> error + HitObjectType" where
  "HitObjectType_of v =
     (if v = 2 ^ 0 then Inr HIT_CIRCLE
      else if v = 2 ^ 1 then Inr SLIDER
      else if v = 2 ^ 3 then Inr SPINNER
      else if v = 2 ^ 7 then Inr HOLD_NOTE
      else Inl ValueError)"

text \<open>The three values the loader reads from the type flag of a hit object.\<close>

definition object_type :: "int \<Rightarrow> error + HitObjectType" where
  "object_type object_type_flag = HitObjectType_of (object_type_flag AND 139)"

definition new_combo_of :: "int \<Rightarrow> bool" where
  "new_combo_of object_type_flag = (object_type_flag AND push_bit 2 1 \<noteq> 0)"

definition combo_to_skip_of :: "int \<Rightarrow> int" where
  "combo_to_skip_of object_type_flag = push_bit 4 object_type_flag AND 7"

section \<open>The loader of \<^verbatim>\<open>src/beatmap.py\<close>\<close>

subsection \<open>Default objects\<close>

definition General_init :: General where
  "General_init =
     \<lparr>audio_filename = '''', audio_lead_in = 0, audio_hash = '''', preview_time = - 1,
      countdown = Member Countdown_NORMAL, sample_set = Member SampleSet_NORMAL,
      stack_leniency = 7 / 10, mode = Member STANDARD, letterbox_in_breaks = False,
      story_fire_in_front = True, use_skin_sprites = False, always_show_playfield = False,
      overlay_position = Member NO_CHANGE, skin_preference = '''', epilepsy_warning = False,
      countdown_offset = 0, special_style = False, widescreen_storyboard = False,
      samples_match_playback_rate = False\<rparr>"

definition Editor_init :: Editor where
  "Editor_init =
     \<lparr>distance_spacing = 1, beat_divisor = 4, grid_size = 64, timeline_zoom = 0,
      bookmarks = []\<rparr>"

definition Metadata_init :: Metadata where
  "Metadata_init =
     \<lparr>title = '''', title_unicode = '''', artist = '''', artist_unicode = '''', creator = '''',
      version = '''', source = '''', tags = [], beatmap_id = - 1, beatmap_set_id = - 1\<rparr>"

definition Difficulty_init :: Difficulty where
  "Difficulty_init =
     \<lparr>hp_drain_rate = 5, circle_size = 5, overall_difficulty = 5, approach_rate = 5,
      slider_multiplier = 5, slider_tick_rate = 5\<rparr>"

definition HitSample_init :: HitSample where
  "HitSample_init =
     \<lparr>normal_set = DEFAULT, addition_set = DEFAULT, index = 0, volume = 0, filename = ''''\<rparr>"

text \<open>
  The default of the field \<^verbatim>\<open>colors\<close> of a \<^verbatim>\<open>Beatmap\<close> is a shallow copy of one
  \<^verbatim>\<open>Colors\<close> object made when the class is defined, so every beatmap of a process shares
  the list inside it, and the loader appends to that list. \<open>shared_colors\<close> is what the
  list holds when the loader is called: \<open>[]\<close> at the first call of a process.
\<close>

definition Beatmap_init :: "int list list \<Rightarrow> Beatmap" where
  "Beatmap_init shared_colors =
     \<lparr>general = General_init, editor = Editor_init, metadata = Metadata_init,
      difficulty = Difficulty_init, events = \<lparr>events_list = []\<rparr>, timing_points = [],
      colors = \<lparr>colors_list = shared_colors, slider_track_override = None,
                slider_border = None\<rparr>,
      hit_objects = []\<rparr>"

subsection \<open>Section headers\<close>

text \<open>\<^verbatim>\<open>line[1:-1]\<close> drops the first and the last character.\<close>

definition section_header :: "string \<Rightarrow> Section option \<Rightarrow> Section option" where
  "section_header line section =
     (let section_text = butlast (tl line) in
      if section_text = ''General'' then Some GENERAL
      else if section_text = ''Editor'' then Some EDITOR
      else if section_text = ''Metadata'' then Some METADATA
      else if section_text = ''Difficulty'' then Some DIFFICULTY
      else if section_text = ''Events'' then Some EVENTS
      else if section_text = ''TimingPoints'' then Some TIMING_POINTS
      else if section_text = ''Colours'' then Some COLORS
      else if section_text = ''HitObjects'' then Some HIT_OBJECTS
      else section)"

subsection \<open>Key and value sections\<close>

text \<open>
  \<^verbatim>\<open>key, value = line.split(":")\<close> raises \<^verbatim>\<open>ValueError\<close> unless the line has exactly
  one colon. The section \<^verbatim>\<open>General\<close> is an \<^verbatim>\<open>if\<close>/\<^verbatim>\<open>elif\<close> chain; \<^verbatim>\<open>Editor\<close>,
  \<^verbatim>\<open>Metadata\<close> and \<^verbatim>\<open>Difficulty\<close> are sequences of independent \<^verbatim>\<open>if\<close> statements,
  each a step of its own here.
\<close>

definition py_bool :: "int \<Rightarrow> bool" where
  "py_bool n = (n \<noteq> 0)"

definition general_fields :: "string \<Rightarrow> string \<Rightarrow> General \<Rightarrow> error + General" where
  "general_fields key value g =
          (if key = ''AudioFilename'' then Inr (g\<lparr>audio_filename := value\<rparr>)
           else if key = ''AudioLeadIn'' then
             rbind (py_int value) (\<lambda>n. Inr (g\<lparr>audio_lead_in := n\<rparr>))
           else if key = ''AudioHash'' then Inr (g\<lparr>audio_hash := value\<rparr>)
           else if key = ''PreviewTime'' then
             rbind (py_int value) (\<lambda>n. Inr (g\<lparr>preview_time := n\<rparr>))
           else if key = ''Countdown'' then
             rbind (py_int value) (\<lambda>n. Inr (g\<lparr>countdown := Raw n\<rparr>))
           else if key = ''SampleSet'' then Inr (g\<lparr>sample_set := Raw value\<rparr>)
           else if key = ''StackLeniency'' then
             rbind (py_decimal value) (\<lambda>d. Inr (g\<lparr>stack_leniency := d\<rparr>))
           else if key = ''Mode'' then
             rbind (py_int value) (\<lambda>n. Inr (g\<lparr>mode := Raw n\<rparr>))
           else if key = ''LetterboxInBreaks'' then
             rbind (py_int value) (\<lambda>n. Inr (g\<lparr>letterbox_in_breaks := py_bool n\<rparr>))
           else if key = ''StoryFireInFront'' then
             rbind (py_int value) (\<lambda>n. Inr (g\<lparr>story_fire_in_front := py_bool n\<rparr>))
           else if key = ''UseSkinSprites'' then
             rbind (py_int value) (\<lambda>n. Inr (g\<lparr>use_skin_sprites := py_bool n\<rparr>))
           else if key = ''AlwaysShowPlayfield'' then
             rbind (py_int value) (\<lambda>n. Inr (g\<lparr>always_show_playfield := py_bool n\<rparr>))
           else if key = ''OverlayPosition'' then Inr (g\<lparr>overlay_position := Raw value\<rparr>)
           else if key = ''SkinPreference'' then Inr (g\<lparr>skin_preference := value\<rparr>)
           else if key = ''EpilepsyWarning'' then
             rbind (py_int value) (\<lambda>n. Inr (g\<lparr>epilepsy_warning := py_bool n\<rparr>))
           else if key = ''CountdownOffset'' then
             rbind (py_int value) (\<lambda>n. Inr (g\<lparr>countdown_offset := n\<rparr>))
           else if key = ''SpecialStyle'' then
             rbind (py_int value) (\<lambda>n. Inr (g\<lparr>special_style := py_bool n\<rparr>))
           else if key = ''WidescreenStoryboard'' then
             rbind (py_int value) (\<lambda>n. Inr (g\<lparr>widescreen_storyboard := py_bool n\<rparr>))
           else if key = ''SamplesMatchPlaybackRate'' then
             rbind (py_int value) (\<lambda>n. Inr (g\<lparr>samples_match_playback_rate := py_bool n\<rparr>))
           else Inr g)"

definition general_line :: "General \<Rightarrow> string \<Rightarrow> error + General" where
  "general_line g line =
     (case py_split CHR '':'' line of
        [k, v] \<Rightarrow> general_fields (strip k) (strip v) g
      | _ \<Rightarrow> Inl ValueError)"

definition editor_fields :: "string \<Rightarrow> string \<Rightarrow> Editor \<Rightarrow> error + Editor" where
  "editor_fields key value e0 =
     rbind (if key = ''DistanceSpacing''
            then rbind (py_decimal value) (\<lambda>d. Inr (e0\<lparr>distance_spacing := d\<rparr>))
            else Inr e0) (\<lambda>e1.
     rbind (if key = ''BeatDivisor''
            then rbind (py_int value) (\<lambda>n. Inr (e1\<lparr>beat_divisor := n\<rparr>))
            else Inr e1) (\<lambda>e2.
     rbind (if key = ''GridSize''
            then rbind (py_int value) (\<lambda>n. Inr (e2\<lparr>grid_size := n\<rparr>))
            else Inr e2) (\<lambda>e3.
     rbind (if key = ''TimelineZoom''
            then rbind (py_decimal value) (\<lambda>d. Inr (e3\<lparr>timeline_zoom := d\<rparr>))
            else Inr e3) (\<lambda>e4.
     (if key = ''Bookmarks''
      then rbind (map_r py_int (py_split CHR '','' value)) (\<lambda>ns. Inr (e4\<lparr>bookmarks := ns\<rparr>))
      else Inr e4)))))"

definition editor_line :: "Editor \<Rightarrow> string \<Rightarrow> error + Editor" where
  "editor_line e line =
     (case py_split CHR '':'' line of
        [key, value] \<Rightarrow> editor_fields key value e
      | _ \<Rightarrow> Inl ValueError)"

definition metadata_fields :: "string \<Rightarrow> string \<Rightarrow> Metadata \<Rightarrow> error + Metadata" where
  "metadata_fields key value m0 =
     (let m1 = (if key = ''Title'' then m0\<lparr>title := value\<rparr> else m0);
          m2 = (if key = ''TitleUnicode'' then m1\<lparr>title_unicode := value\<rparr> else m1);
          m3 = (if key = ''Artist'' then m2\<lparr>artist := value\<rparr> else m2);
          m4 = (if key = ''ArtistUnicode'' then m3\<lparr>artist_unicode := value\<rparr> else m3);
          m5 = (if key = ''Creator'' then m4\<lparr>creator := value\<rparr> else m4);
          m6 = (if key = ''Version'' then m5\<lparr>version := value\<rparr> else m5);
          m7 = (if key = ''Source'' then m6\<lparr>source := value\<rparr> else m6);
          m8 = (if key = ''Tags'' then m7\<lparr>tags := py_split CHR '' '' value\<rparr> else m7)
      in rbind (if key = ''BeatmapID''
                then rbind (py_int value) (\<lambda>n. Inr (m8\<lparr>beatmap_id := n\<rparr>))
                else Inr m8) (\<lambda>m9.
         (if key = ''BeatmapSetID''
          then rbind (py_int value) (\<lambda>n. Inr (m9\<lparr>beatmap_set_id := n\<rparr>))
          else Inr m9)))"

definition metadata_line :: "Metadata \<Rightarrow> string \<Rightarrow> error + Metadata" where
  "metadata_line m line =
     (case py_split1 CHR '':'' line of
        [k, v] \<Rightarrow> metadata_fields (strip k) (strip v) m
      | _ \<Rightarrow> Inl ValueError)"

definition difficulty_fields :: "string \<Rightarrow> string \<Rightarrow> Difficulty \<Rightarrow> error + Difficulty" where
  "difficulty_fields key value d0 =
     rbind (if key = ''HPDrainRate''
            then rbind (py_decimal value) (\<lambda>v. Inr (d0\<lparr>hp_drain_rate := v\<rparr>))
            else Inr d0) (\<lambda>d1.
     rbind (if key = ''CircleSize''
            then rbind (py_decimal value) (\<lambda>v. Inr (d1\<lparr>circle_size := v\<rparr>))
            else Inr d1) (\<lambda>d2.
     rbind (if key = ''OverallDifficulty''
            then rbind (py_decimal value) (\<lambda>v. Inr (d2\<lparr>overall_difficulty := v\<rparr>))
            else Inr d2) (\<lambda>d3.
     rbind (if key = ''ApproachRate''
            then rbind (py_decimal value) (\<lambda>v. Inr (d3\<lparr>approach_rate := v\<rparr>))
            else Inr d3) (\<lambda>d4.
     rbind (if key = ''SliderMultiplier''
            then rbind (py_decimal value) (\<lambda>v. Inr (d4\<lparr>slider_multiplier := v\<rparr>))
            else Inr d4) (\<lambda>d5.
     (if key = ''SliderTickRate''
      then rbind (py_decimal value) (\<lambda>v. Inr (d5\<lparr>slider_tick_rate := v\<rparr>))
      else Inr d5))))))"

definition difficulty_line :: "Difficulty \<Rightarrow> string \<Rightarrow> error + Difficulty" where
  "difficulty_line d line =
     (case py_split CHR '':'' line of
        [key, value] \<Rightarrow> difficulty_fields key value d
      | _ \<Rightarrow> Inl ValueError)"

subsection \<open>Timing points and colours\<close>

text \<open>
  An uninherited point keeps the default \<^verbatim>\<open>sv_multiplier\<close> of 1; an inherited point
  gets the beat duration \<^verbatim>\<open>Decimal()\<close>, which is 0, and \<^verbatim>\<open>-100 / beat_length\<close>.
\<close>

definition timing_point_line :: "string \<Rightarrow> error + TimingPoint" where
  "timing_point_line line =
     (case py_split CHR '','' line of
        [time_s, beat_length_s, meter_s, sample_set_s, sample_index_s, volume_s,
         uninherited_s, effects_s] \<Rightarrow>
          rbind (py_decimal time_s) (\<lambda>time_v.
          rbind (py_decimal beat_length_s) (\<lambda>beat_length.
          rbind (py_int meter_s) (\<lambda>meter_v.
          rbind (py_int sample_set_s) (\<lambda>sample_set_v.
          rbind (py_int sample_index_s) (\<lambda>sample_index_v.
          rbind (py_int volume_s) (\<lambda>volume_v.
          rbind (py_int uninherited_s) (\<lambda>uninherited_i.
          rbind (py_int effects_s) (\<lambda>effects_i.
            if py_bool uninherited_i then
              Inr \<lparr>time_tp = time_v, meter = meter_v, sample_set_tp = sample_set_v,
                   sample_index = sample_index_v, volume_tp = volume_v,
                   uninherited = True, effects = create_effects effects_i,
                   beat_duration = beat_length, sv_multiplier = 1\<rparr>
            else
              rbind (dec_div (- 100) beat_length) (\<lambda>sv.
              Inr \<lparr>time_tp = time_v, meter = meter_v, sample_set_tp = sample_set_v,
                   sample_index = sample_index_v, volume_tp = volume_v,
                   uninherited = False, effects = create_effects effects_i,
                   beat_duration = 0, sv_multiplier = sv\<rparr>)))))))))
      | _ \<Rightarrow> Inl ValueError)"

definition colors_line :: "Colors \<Rightarrow> string \<Rightarrow> error + Colors" where
  "colors_line c line =
     (case py_split CHR '':'' line of
        [k, v] \<Rightarrow>
          (let key = strip k; value = strip v in
           rbind (map_r py_int (py_split CHR '','' value)) (\<lambda>color.
             if take 5 key = ''Combo'' then
               rbind (py_int (drop 5 key)) (\<lambda>color_index.
                 Inr (c\<lparr>colors_list := colors_list c @ [color]\<rparr>))
             else if key = ''SliderTrackOverride'' then
               Inr (c\<lparr>slider_track_override := Some color\<rparr>)
             else if key = ''SliderBorder'' then
               Inr (c\<lparr>slider_border := Some color\<rparr>)
             else Inr c))
      | _ \<Rightarrow> Inl ValueError)"

subsection \<open>Hit objects\<close>

definition TimingPointSampleSet_of :: "int \<Rightarrow> error + TimingPointSampleSet" where
  "TimingPointSampleSet_of v =
     (if v = 0 then Inr DEFAULT
      else if v = 1 then Inr NORMAL
      else if v = 2 then Inr SOFT
      else if v = 3 then Inr DRUM
      else Inl ValueError)"

definition CurveType_of :: "string \<Rightarrow> error + CurveType" where
  "CurveType_of v =
     (if v = ''B'' then Inr BEZIER
      else if v = ''C'' then Inr CATMULL
      else if v = ''L'' then Inr LINEAR
      else if v = ''P'' then Inr PERFECT
      else Inl ValueError)"

definition create_hit_sample :: "string \<Rightarrow> error + HitSample" where
  "create_hit_sample x =
     (case py_split CHR '':'' x of
        [normal_set_s, addition_set_s, index_s, volume_s, filename_s] \<Rightarrow>
          rbind (py_int normal_set_s) (\<lambda>normal_set_i.
          rbind (py_int addition_set_s) (\<lambda>addition_set_i.
          rbind (py_int index_s) (\<lambda>index_i.
          rbind (py_int volume_s) (\<lambda>volume_i.
          rbind (TimingPointSampleSet_of normal_set_i) (\<lambda>ns.
          rbind (TimingPointSampleSet_of addition_set_i) (\<lambda>as.
            Inr \<lparr>normal_set = ns, addition_set = as, index = index_i, volume = volume_i,
                 filename = filename_s\<rparr>))))))
      | _ \<Rightarrow> Inl ValueError)"

text \<open>
  The hit sample is the last of the remaining tokens when there is one, and the default
  sample otherwise.
\<close>

definition trailing_hit_sample :: "string list \<Rightarrow> error + HitSample" where
  "trailing_hit_sample params =
     (if length params > 0 then create_hit_sample (last params) else Inr HitSample_init)"

definition parse_curve_point :: "string \<Rightarrow> error + point" where
  "parse_curve_point curve_point =
     (case py_split CHR '':'' curve_point of
        [point_x_s, point_y_s] \<Rightarrow>
          rbind (py_int point_x_s) (\<lambda>point_x.
          rbind (py_int point_y_s) (\<lambda>point_y. Inr (point_x, point_y)))
      | _ \<Rightarrow> Inl ValueError)"

definition parse_edge_set :: "string \<Rightarrow> error + (TimingPointSampleSet \<times> TimingPointSampleSet)" where
  "parse_edge_set edge_set =
     (case py_split CHR '':'' edge_set of
        [normal_set_s, addition_set_s] \<Rightarrow>
          rbind (py_int normal_set_s) (\<lambda>normal_set_i.
          rbind (py_int addition_set_s) (\<lambda>addition_set_i.
          rbind (TimingPointSampleSet_of normal_set_i) (\<lambda>ns.
          rbind (TimingPointSampleSet_of addition_set_i) (\<lambda>as. Inr (ns, as)))))
      | _ \<Rightarrow> Inl ValueError)"

text \<open>
  The loop over the anchor points of a B\'ezier slider. Its state is the list of curves
  emitted so far, the curve being built and the previous point, which starts as the
  sentinel \<open>(- 1, - 1)\<close>.
\<close>

fun bezier_loop :: "Curve list \<Rightarrow> point list \<Rightarrow> point \<Rightarrow> point list \<Rightarrow> Curve list \<times> point list" where
  "bezier_loop curves_acc curr_curve prev_point [] = (curves_acc, curr_curve)"
| "bezier_loop curves_acc curr_curve prev_point (p # ps) =
     (if fst p = fst prev_point \<and> snd p = snd prev_point
      then bezier_loop (curves_acc @ [\<lparr>curve_type = BEZIER, curve_points = curr_curve\<rparr>]) [p] p ps
      else bezier_loop curves_acc (curr_curve @ [p]) p ps)"

definition make_curves :: "CurveType \<Rightarrow> int \<Rightarrow> int \<Rightarrow> point list \<Rightarrow> Curve list" where
  "make_curves ct x y pts =
     (if ct = BEZIER then
        (case bezier_loop [] [(x, y)] (- 1, - 1) pts of
           (curves_acc, curr_curve) \<Rightarrow>
             curves_acc @ [\<lparr>curve_type = BEZIER, curve_points = curr_curve\<rparr>])
      else [\<lparr>curve_type = ct, curve_points = (x, y) # pts\<rparr>])"

definition slider_params :: "int \<Rightarrow> int \<Rightarrow> string list \<Rightarrow> error + (HitSample \<times> SliderFields)" where
  "slider_params x y object_params =
     (case object_params of
        curves_s # slides_s # length_s # edge_sounds_s # edge_sets_s # rest \<Rightarrow>
          (case py_split CHR ''|'' curves_s of
             [] \<Rightarrow> Inl ValueError
           | curve_type_s # curve_points_s \<Rightarrow>
               rbind (CurveType_of curve_type_s) (\<lambda>ct.
               rbind (map_r parse_curve_point curve_points_s) (\<lambda>pts.
               rbind (py_int slides_s) (\<lambda>slides_v.
               rbind (py_decimal length_s) (\<lambda>length_v.
               rbind (map_r py_int (py_split CHR ''|'' edge_sounds_s)) (\<lambda>edge_sounds_v.
               rbind (map_r parse_edge_set (py_split CHR ''|'' edge_sets_s)) (\<lambda>edge_sets_v.
               rbind (trailing_hit_sample rest) (\<lambda>hs.
                 Inr (hs, \<lparr>curves = make_curves ct x y pts, slides = slides_v,
                           length_px = length_v, edge_sounds = edge_sounds_v,
                           edge_sets = edge_sets_v, end_time = 0, duration = 0,
                           timing_point = None\<rparr>)))))))))
      | _ \<Rightarrow> Inl ValueError)"

definition spinner_params :: "string list \<Rightarrow> error + (HitSample \<times> int)" where
  "spinner_params object_params =
     (case object_params of
        [] \<Rightarrow> Inl ValueError
      | end_time_s # rest \<Rightarrow>
          rbind (py_int end_time_s) (\<lambda>end_time_v.
          rbind (trailing_hit_sample rest) (\<lambda>hs. Inr (hs, end_time_v))))"

text \<open>
  One line of the section \<^verbatim>\<open>HitObjects\<close>: the object to append, or \<open>None\<close> when the
  line appends nothing.
\<close>

definition hit_object_line :: "string \<Rightarrow> error + HitObject option" where
  "hit_object_line line =
     (case py_split CHR '','' line of
        x_s # y_s # start_time_s # object_type_flag_s # hit_sound_s # object_params \<Rightarrow>
          rbind (py_int x_s) (\<lambda>x.
          rbind (py_int y_s) (\<lambda>y.
          rbind (py_int start_time_s) (\<lambda>start_time.
          rbind (py_int object_type_flag_s) (\<lambda>object_type_flag.
          rbind (object_type object_type_flag) (\<lambda>ot.
          rbind (py_int hit_sound_s) (\<lambda>hit_sound_i.
            if ot = HIT_CIRCLE then
              rbind (trailing_hit_sample object_params) (\<lambda>hs.
                Inr (Some \<lparr>x_pos = x, y_pos = y, time = start_time, obj_type = ot,
                           hit_sound = create_hit_sound hit_sound_i,
                           new_combo = new_combo_of object_type_flag,
                           combo_to_skip = combo_to_skip_of object_type_flag,
                           hit_sample = hs, ext = HitCircle\<rparr>))
            else if ot = SLIDER then
              rbind (slider_params x y object_params) (\<lambda>(hs, sf).
                Inr (Some \<lparr>x_pos = x, y_pos = y, time = start_time, obj_type = ot,
                           hit_sound = create_hit_sound hit_sound_i,
                           new_combo = new_combo_of object_type_flag,
                           combo_to_skip = combo_to_skip_of object_type_flag,
                           hit_sample = hs, ext = Slider sf\<rparr>))
            else if ot = SPINNER then
              rbind (spinner_params object_params) (\<lambda>(hs, end_time_v).
                Inr (Some \<lparr>x_pos = x, y_pos = y, time = start_time, obj_type = ot,
                           hit_sound = create_hit_sound hit_sound_i,
                           new_combo = new_combo_of object_type_flag,
                           combo_to_skip = combo_to_skip_of object_type_flag,
                           hit_sample = hs, ext = Spinner end_time_v\<rparr>))
            else if object_type_flag = 128 then Inr None
            else Inr None))))))
      | _ \<Rightarrow> Inl ValueError)"

subsection \<open>The section router\<close>

text \<open>
  One iteration of the loop over the lines: the state is the current section and the
  beatmap built so far. A line that belongs to no branch leaves both as they are.
\<close>

definition parse_line :: "Section option \<Rightarrow> Beatmap \<Rightarrow> string \<Rightarrow> error + (Section option \<times> Beatmap)" where
  "parse_line section beatmap raw_line =
     (let line = rstrip raw_line in
      if length line = 0 then Inr (section, beatmap)
      else if take 1 line = ''['' then Inr (section_header line section, beatmap)
      else if section = Some GENERAL then
        rbind (general_line (general beatmap) line) (\<lambda>g.
          Inr (section, beatmap\<lparr>general := g\<rparr>))
      else if section = Some EDITOR then
        rbind (editor_line (editor beatmap) line) (\<lambda>e.
          Inr (section, beatmap\<lparr>editor := e\<rparr>))
      else if section = Some METADATA then
        rbind (metadata_line (metadata beatmap) line) (\<lambda>m.
          Inr (section, beatmap\<lparr>metadata := m\<rparr>))
      else if section = Some DIFFICULTY then
        rbind (difficulty_line (difficulty beatmap) line) (\<lambda>d.
          Inr (section, beatmap\<lparr>difficulty := d\<rparr>))
      else if section = Some EVENTS then Inr (section, beatmap)
      else if section = Some TIMING_POINTS then
        rbind (timing_point_line line) (\<lambda>tp.
          Inr (section, beatmap\<lparr>timing_points := timing_points beatmap @ [tp]\<rparr>))
      else if section = Some COLORS then
        rbind (colors_line (colors beatmap) line) (\<lambda>c.
          Inr (section, beatmap\<lparr>colors := c\<rparr>))
      else if section = Some HIT_OBJECTS then
        rbind (hit_object_line line) (\<lambda>r.
          case r of
            None \<Rightarrow> Inr (section, beatmap)
          | Some ho \<Rightarrow> Inr (section, beatmap\<lparr>hit_objects := hit_objects beatmap @ [ho]\<rparr>))
      else Inr (section, beatmap))"

fun parse_lines :: "Section option \<Rightarrow> Beatmap \<Rightarrow> string list \<Rightarrow> error + (Section option \<times> Beatmap)" where
  "parse_lines section beatmap [] = Inr (section, beatmap)"
| "parse_lines section beatmap (l # ls) =
     (case parse_line section beatmap l of
        Inl e \<Rightarrow> Inl e
      | Inr (section', beatmap') \<Rightarrow> parse_lines section' beatmap' ls)"

subsection \<open>The timing point resolver\<close>

text \<open>
  \<^verbatim>\<open>sorted\<close> is stable and returns a new list of the same objects, so the two passes
  change the objects of the beatmap in place and leave the order of its lists alone.
  The sorted list is the list of the positions of the objects, in the order of their
  times; \<open>sort_key\<close> is a stable insertion sort. Every position is below the length of
  the list it indexes.
\<close>

definition time_order :: "TimingPoint list \<Rightarrow> nat list" where
  "time_order tps = sort_key (\<lambda>i. time_tp (tps ! i)) [0..<length tps]"

definition hit_object_order :: "HitObject list \<Rightarrow> nat list" where
  "hit_object_order hos = sort_key (\<lambda>j. time (hos ! j)) [0..<length hos]"

fun propagate_beat_duration :: "rat \<Rightarrow> nat list \<Rightarrow> TimingPoint list \<Rightarrow> TimingPoint list" where
  "propagate_beat_duration last_beat_duration [] tps = tps"
| "propagate_beat_duration last_beat_duration (i # rest) tps =
     (if uninherited (tps ! i)
      then propagate_beat_duration (beat_duration (tps ! i)) rest tps
      else propagate_beat_duration last_beat_duration rest
             (tps[i := (tps ! i)\<lparr>beat_duration := last_beat_duration\<rparr>]))"

definition populate_timing_point_properties :: "Beatmap \<Rightarrow> Beatmap" where
  "populate_timing_point_properties beatmap =
     beatmap\<lparr>timing_points :=
       propagate_beat_duration 0 (time_order (timing_points beatmap)) (timing_points beatmap)\<rparr>"

text \<open>
  The cursor of the second pass: the position \<open>i\<close> in the sorted list, the timing point
  at that position (as its position in the beatmap's list) and the time of the next
  timing point, \<open>None\<close> for \<^verbatim>\<open>math.inf\<close>. \<open>advance_cursor\<close> is the \<^verbatim>\<open>while\<close> loop.
\<close>

type_synonym cursor = "nat \<times> nat \<times> rat option"

function advance_cursor :: "TimingPoint list \<Rightarrow> nat list \<Rightarrow> int \<Rightarrow> cursor \<Rightarrow> error + cursor" where
  "advance_cursor tps order t (i, timing_point_v, next_time) =
     (case next_time of
        None \<Rightarrow> Inr (i, timing_point_v, next_time)
      | Some nt \<Rightarrow>
          if of_int t \<ge> nt then
            (if i + 1 < length order then
               advance_cursor tps order t
                 (i + 1, order ! (i + 1),
                  if i + 1 + 1 < length order
                  then Some (time_tp (tps ! (order ! (i + 1 + 1)))) else None)
             else Inl IndexError)
          else Inr (i, timing_point_v, next_time))"
  by pat_completeness auto
termination
  by (relation "measure (\<lambda>(tps, order, t, i, timing_point_v, next_time). length order - i)") auto

definition resolve_hit_object ::
  "TimingPoint list \<Rightarrow> nat list \<Rightarrow> rat \<Rightarrow> cursor \<Rightarrow> HitObject \<Rightarrow> error + (cursor \<times> HitObject)" where
  "resolve_hit_object tps order slider_multiplier_v cur hit_object =
     (if obj_type hit_object = SLIDER then
        rbind (advance_cursor tps order (time hit_object) cur) (\<lambda>(i, timing_point_v, next_time).
          case ext hit_object of
            Slider s \<Rightarrow>
              rbind (dec_div (beat_duration (tps ! timing_point_v) * of_int (slides s) * length_px s)
                             (sv_multiplier (tps ! timing_point_v) * 100 * slider_multiplier_v))
                (\<lambda>duration_v.
                  Inr ((i, timing_point_v, next_time),
                       hit_object\<lparr>ext := Slider (s\<lparr>end_time := of_int (time hit_object) + duration_v,
                                                  duration := duration_v,
                                                  timing_point := Some timing_point_v\<rparr>)\<rparr>))
          | _ \<Rightarrow> Inl AttributeError)
      else Inr (cur, hit_object))"

fun resolve_loop ::
  "TimingPoint list \<Rightarrow> nat list \<Rightarrow> rat \<Rightarrow> cursor \<Rightarrow> nat list \<Rightarrow> HitObject list \<Rightarrow> error + HitObject list" where
  "resolve_loop tps order sm cur [] hos = Inr hos"
| "resolve_loop tps order sm cur (j # js) hos =
     (case resolve_hit_object tps order sm cur (hos ! j) of
        Inl e \<Rightarrow> Inl e
      | Inr (cur', ho') \<Rightarrow> resolve_loop tps order sm cur' js (hos[j := ho']))"

text \<open>
  \<^verbatim>\<open>timing_points[i]\<close> and \<^verbatim>\<open>timing_points[i + 1]\<close> are read before the loop starts and
  raise \<^verbatim>\<open>IndexError\<close> on a list that is too short.
\<close>

definition populate_slider_properties :: "Beatmap \<Rightarrow> error + Beatmap" where
  "populate_slider_properties beatmap =
     (let tps = timing_points beatmap;
          order = time_order tps
      in if \<not> 0 < length order then Inl IndexError
         else if \<not> 0 + 1 < length order then Inl IndexError
         else
           rbind (resolve_loop tps order (slider_multiplier (difficulty beatmap))
                    (0, order ! 0, Some (time_tp (tps ! (order ! (0 + 1)))))
                    (hit_object_order (hit_objects beatmap)) (hit_objects beatmap))
             (\<lambda>hos. Inr (beatmap\<lparr>hit_objects := hos\<rparr>)))"

text \<open>
  The loader: \<open>file_lines\<close> is what \<^verbatim>\<open>file.readlines()\<close> returns.
\<close>

definition load :: "int list list \<Rightarrow> string list \<Rightarrow> error + Beatmap" where
  "load shared_colors file_lines =
     rbind (parse_lines None (Beatmap_init shared_colors) file_lines) (\<lambda>(section, beatmap).
       populate_slider_properties (populate_timing_point_properties beatmap))"

section \<open>The data model and the loader of \<^verbatim>\<open>src/beatmap/main.py\<close>\<close>

text \<open>
  The second loader names its fields after the keys of the file. Its enums and the
  classes \<^verbatim>\<open>HitSound\<close>, \<^verbatim>\<open>Event\<close> and \<^verbatim>\<open>Events\<close> and the functions
  \<^verbatim>\<open>create_hit_sound\<close> and the decoding of the type flag are the ones above, letter for
  letter. Every other class is a record of its own here, with the suffix \<open>_m\<close> on the
  type and on each name that the first file has too. A timing point is an
  \<^verbatim>\<open>InheritedTimingPoint\<close> with a \<^verbatim>\<open>svMultiplier\<close> or an \<^verbatim>\<open>UninheritedTimingPoint\<close> with
  a \<^verbatim>\<open>beatDuration\<close>. The curve type of a slider stays the string of the file, a slider
  has one curve, and there is no resolver.
\<close>

record General_m =
  AudioFilename :: string
  AudioLeadIn :: int
  AudioHash :: string
  PreviewTime :: int
  Countdown :: "(Countdown, int) field_val"
  SampleSet :: "(SampleSet, string) field_val"
  StackLeniency :: rat
  Mode :: "(GameMode, int) field_val"
  LetterboxInBreaks :: bool
  StoryFireInFront :: bool
  UseSkinSprites :: bool
  AlwaysShowPlayfield :: bool
  OverlayPosition :: "(OverlayPosition, string) field_val"
  SkinPreference :: string
  EpilepsyWarning :: bool
  CountdownOffset :: int
  SpecialStyle :: bool
  WidescreenStoryboard :: bool
  SamplesMatchPlaybackRate :: bool

record Editor_m =
  DistanceSpacing :: rat
  BeatDivisor :: int
  GridSize :: int
  TimelineZoom :: rat
  Bookmarks :: "int list"

record Metadata_m =
  Title :: string
  TitleUnicode :: string
  Artist :: string
  ArtistUnicode :: string
  Creator :: string
  Version :: string
  Source :: string
  Tags :: "string list"
  BeatmapID :: int
  BeatmapSetID :: int

record Difficulty_m =
  HPDrainRate :: rat
  CircleSize :: rat
  OverallDifficulty :: rat
  ApproachRate :: rat
  SliderMultiplier :: rat
  SliderTickRate :: rat

record Effects_m =
  KiaiTime :: bool
  BarLine :: bool

datatype TimingPointExt_m =
    InheritedTimingPoint rat
  | UninheritedTimingPoint rat

record TimingPoint_m =
  time_tp_m :: rat
  meter_m :: int
  sampleSet :: int
  sampleIndex :: int
  volume_tp_m :: int
  uninherited_m :: bool
  effects_m :: Effects_m
  ext_tp_m :: TimingPointExt_m

record Colors_m =
  colors_list_m :: "int list list"
  SliderTrackOverride :: "int list option"
  SliderBorder :: "int list option"

record HitSample_m =
  normalSet :: TimingPointSampleSet
  additionSet :: TimingPointSampleSet
  index_m :: int
  volume_m :: int
  filename_m :: string

record Curve_m =
  curveType :: string
  curvePoints :: "point list"

record SliderFields_m =
  curves_m :: "Curve_m list"
  slides_m :: int
  length_px_m :: rat
  edgeSounds :: "int list"
  edgeSets :: "(TimingPointSampleSet \<times> TimingPointSampleSet) list"
  endTime :: int

datatype HitObjectExt_m =
    HitCircle_m
  | Slider_m SliderFields_m
  | Spinner_m int

record HitObject_m =
  x_pos_m :: int
  y_pos_m :: int
  time_m :: int
  obj_type_m :: HitObjectType
  hitSound :: HitSound
  newCombo :: bool
  comboToSkip :: int
  hitSample :: HitSample_m
  ext_m :: HitObjectExt_m

record Beatmap_m =
  general_m :: General_m
  editor_m :: Editor_m
  metadata_m :: Metadata_m
  difficulty_m :: Difficulty_m
  events_m :: Events
  timingPoints :: "TimingPoint_m list"
  colors_m :: Colors_m
  hit_objects_m :: "HitObject_m list"

definition create_effects_m :: "int \<Rightarrow> Effects_m" where
  "create_effects_m x =
     \<lparr>KiaiTime = (push_bit 0 x AND 1 \<noteq> 0),
      BarLine = (push_bit 3 x AND 1 \<noteq> 0)\<rparr>"

definition General_init_m :: General_m where
  "General_init_m =
     \<lparr>AudioFilename = '''', AudioLeadIn = 0, AudioHash = '''', PreviewTime = - 1,
      Countdown = Member Countdown_NORMAL, SampleSet = Member SampleSet_NORMAL,
      StackLeniency = 7 / 10, Mode = Member STANDARD, LetterboxInBreaks = False,
      StoryFireInFront = True, UseSkinSprites = False, AlwaysShowPlayfield = False,
      OverlayPosition = Member NO_CHANGE, SkinPreference = '''', EpilepsyWarning = False,
      CountdownOffset = 0, SpecialStyle = False, WidescreenStoryboard = False,
      SamplesMatchPlaybackRate = False\<rparr>"

definition Editor_init_m :: Editor_m where
  "Editor_init_m =
     \<lparr>DistanceSpacing = 1, BeatDivisor = 4, GridSize = 64, TimelineZoom = 0,
      Bookmarks = []\<rparr>"

definition Metadata_init_m :: Metadata_m where
  "Metadata_init_m =
     \<lparr>Title = '''', TitleUnicode = '''', Artist = '''', ArtistUnicode = '''', Creator = '''',
      Version = '''', Source = '''', Tags = [], BeatmapID = - 1, BeatmapSetID = - 1\<rparr>"

definition Difficulty_init_m :: Difficulty_m where
  "Difficulty_init_m =
     \<lparr>HPDrainRate = 5, CircleSize = 5, OverallDifficulty = 5, ApproachRate = 5,
      SliderMultiplier = 5, SliderTickRate = 5\<rparr>"

definition HitSample_init_m :: HitSample_m where
  "HitSample_init_m =
     \<lparr>normalSet = DEFAULT, additionSet = DEFAULT, index_m = 0, volume_m = 0,
      filename_m = ''''\<rparr>"

definition Beatmap_init_m :: "int list list \<Rightarrow> Beatmap_m" where
  "Beatmap_init_m shared_colors =
     \<lparr>general_m = General_init_m, editor_m = Editor_init_m, metadata_m = Metadata_init_m,
      difficulty_m = Difficulty_init_m, events_m = \<lparr>events_list = []\<rparr>, timingPoints = [],
      colors_m = \<lparr>colors_list_m = shared_colors, SliderTrackOverride = None,
                  SliderBorder = None\<rparr>,
      hit_objects_m = []\<rparr>"

definition general_fields_m :: "string \<Rightarrow> string \<Rightarrow> General_m \<Rightarrow> error + General_m" where
  "general_fields_m key value g =
          (if key = ''AudioFilename'' then Inr (g\<lparr>AudioFilename := value\<rparr>)
           else if key = ''AudioLeadIn'' then
             rbind (py_int value) (\<lambda>n. Inr (g\<lparr>AudioLeadIn := n\<rparr>))
           else if key = ''AudioHash'' then Inr (g\<lparr>AudioHash := value\<rparr>)
           else if key = ''PreviewTime'' then
             rbind (py_int value) (\<lambda>n. Inr (g\<lparr>PreviewTime := n\<rparr>))
           else if key = ''Countdown'' then
             rbind (py_int value) (\<lambda>n. Inr (g\<lparr>Countdown := Raw n\<rparr>))
           else if key = ''SampleSet'' then Inr (g\<lparr>SampleSet := Raw value\<rparr>)
           else if key = ''StackLeniency'' then
             rbind (py_decimal value) (\<lambda>d. Inr (g\<lparr>StackLeniency := d\<rparr>))
           else if key = ''Mode'' then
             rbind (py_int value) (\<lambda>n. Inr (g\<lparr>Mode := Raw n\<rparr>))
           else if key = ''LetterboxInBreaks'' then
             rbind (py_int value) (\<lambda>n. Inr (g\<lparr>LetterboxInBreaks := py_bool n\<rparr>))
           else if key = ''StoryFireInFront'' then
             rbind (py_int value) (\<lambda>n. Inr (g\<lparr>StoryFireInFront := py_bool n\<rparr>))
           else if key = ''UseSkinSprites'' then
             rbind (py_int value) (\<lambda>n. Inr (g\<lparr>UseSkinSprites := py_bool n\<rparr>))
           else if key = ''AlwaysShowPlayfield'' then
             rbind (py_int value) (\<lambda>n. Inr (g\<lparr>AlwaysShowPlayfield := py_bool n\<rparr>))
           else if key = ''OverlayPosition'' then Inr (g\<lparr>OverlayPosition := Raw value\<rparr>)
           else if key = ''SkinPreference'' then Inr (g\<lparr>SkinPreference := value\<rparr>)
           else if key = ''EpilepsyWarning'' then
             rbind (py_int value) (\<lambda>n. Inr (g\<lparr>EpilepsyWarning := py_bool n\<rparr>))
           else if key = ''CountdownOffset'' then
             rbind (py_int value) (\<lambda>n. Inr (g\<lparr>CountdownOffset := n\<rparr>))
           else if key = ''SpecialStyle'' then
             rbind (py_int value) (\<lambda>n. Inr (g\<lparr>SpecialStyle := py_bool n\<rparr>))
           else if key = ''WidescreenStoryboard'' then
             rbind (py_int value) (\<lambda>n. Inr (g\<lparr>WidescreenStoryboard := py_bool n\<rparr>))
           else if key = ''SamplesMatchPlaybackRate'' then
             rbind (py_int value) (\<lambda>n. Inr (g\<lparr>SamplesMatchPlaybackRate := py_bool n\<rparr>))
           else Inr g)"

definition general_line_m :: "General_m \<Rightarrow> string \<Rightarrow> error + General_m" where
  "general_line_m g line =
     (case py_split CHR '':'' line of
        [k, v] \<Rightarrow> general_fields_m (strip k) (strip v) g
      | _ \<Rightarrow> Inl ValueError)"

definition editor_fields_m :: "string \<Rightarrow> string \<Rightarrow> Editor_m \<Rightarrow> error + Editor_m" where
  "editor_fields_m key value e0 =
     rbind (if key = ''DistanceSpacing''
            then rbind (py_decimal value) (\<lambda>d. Inr (e0\<lparr>DistanceSpacing := d\<rparr>))
            else Inr e0) (\<lambda>e1.
     rbind (if key = ''BeatDivisor''
            then rbind (py_int value) (\<lambda>n. Inr (e1\<lparr>BeatDivisor := n\<rparr>))
            else Inr e1) (\<lambda>e2.
     rbind (if key = ''GridSize''
            then rbind (py_int value) (\<lambda>n. Inr (e2\<lparr>GridSize := n\<rparr>))
            else Inr e2) (\<lambda>e3.
     rbind (if key = ''TimelineZoom''
            then rbind (py_decimal value) (\<lambda>d. Inr (e3\<lparr>TimelineZoom := d\<rparr>))
            else Inr e3) (\<lambda>e4.
     (if key = ''Bookmarks''
      then rbind (map_r py_int (py_split CHR '','' value)) (\<lambda>ns. Inr (e4\<lparr>Bookmarks := ns\<rparr>))
      else Inr e4)))))"

definition editor_line_m :: "Editor_m \<Rightarrow> string \<Rightarrow> error + Editor_m" where
  "editor_line_m e line =
     (case py_split CHR '':'' line of
        [key, value] \<Rightarrow> editor_fields_m key value e
      | _ \<Rightarrow> Inl ValueError)"

definition metadata_fields_m :: "string \<Rightarrow> string \<Rightarrow> Metadata_m \<Rightarrow> error + Metadata_m" where
  "metadata_fields_m key value m0 =
     (let m1 = (if key = ''Title'' then m0\<lparr>Title := value\<rparr> else m0);
          m2 = (if key = ''TitleUnicode'' then m1\<lparr>TitleUnicode := value\<rparr> else m1);
          m3 = (if key = ''Artist'' then m2\<lparr>Artist := value\<rparr> else m2);
          m4 = (if key = ''ArtistUnicode'' then m3\<lparr>ArtistUnicode := value\<rparr> else m3);
          m5 = (if key = ''Creator'' then m4\<lparr>Creator := value\<rparr> else m4);
          m6 = (if key = ''Version'' then m5\<lparr>Version := value\<rparr> else m5);
          m7 = (if key = ''Source'' then m6\<lparr>Source := value\<rparr> else m6);
          m8 = (if key = ''Tags'' then m7\<lparr>Tags := py_split CHR '' '' value\<rparr> else m7)
      in rbind (if key = ''BeatmapID''
                then rbind (py_int value) (\<lambda>n. Inr (m8\<lparr>BeatmapID := n\<rparr>))
                else Inr m8) (\<lambda>m9.
         (if key = ''BeatmapSetID''
          then rbind (py_int value) (\<lambda>n. Inr (m9\<lparr>BeatmapSetID := n\<rparr>))
          else Inr m9)))"

definition metadata_line_m :: "Metadata_m \<Rightarrow> string \<Rightarrow> error + Metadata_m" where
  "metadata_line_m m line =
     (case py_split1 CHR '':'' line of
        [k, v] \<Rightarrow> metadata_fields_m (strip k) (strip v) m
      | _ \<Rightarrow> Inl ValueError)"

definition difficulty_fields_m :: "string \<Rightarrow> string \<Rightarrow> Difficulty_m \<Rightarrow> error + Difficulty_m" where
  "difficulty_fields_m key value d0 =
     rbind (if key = ''HPDrainRate''
            then rbind (py_decimal value) (\<lambda>v. Inr (d0\<lparr>HPDrainRate := v\<rparr>))
            else Inr d0) (\<lambda>d1.
     rbind (if key = ''CircleSize''
            then rbind (py_decimal value) (\<lambda>v. Inr (d1\<lparr>CircleSize := v\<rparr>))
            else Inr d1) (\<lambda>d2.
     rbind (if key = ''OverallDifficulty''
            then rbind (py_decimal value) (\<lambda>v. Inr (d2\<lparr>OverallDifficulty := v\<rparr>))
            else Inr d2) (\<lambda>d3.
     rbind (if key = ''ApproachRate''
            then rbind (py_decimal value) (\<lambda>v. Inr (d3\<lparr>ApproachRate := v\<rparr>))
            else Inr d3) (\<lambda>d4.
     rbind (if key = ''SliderMultiplier''
            then rbind (py_decimal value) (\<lambda>v. Inr (d4\<lparr>SliderMultiplier := v\<rparr>))
            else Inr d4) (\<lambda>d5.
     (if key = ''SliderTickRate''
      then rbind (py_decimal value) (\<lambda>v. Inr (d5\<lparr>SliderTickRate := v\<rparr>))
      else Inr d5))))))"

definition difficulty_line_m :: "Difficulty_m \<Rightarrow> string \<Rightarrow> error + Difficulty_m" where
  "difficulty_line_m d line =
     (case py_split CHR '':'' line of
        [key, value] \<Rightarrow> difficulty_fields_m key value d
      | _ \<Rightarrow> Inl ValueError)"

definition timing_point_line_m :: "string \<Rightarrow> error + TimingPoint_m" where
  "timing_point_line_m line =
     (case py_split CHR '','' line of
        [time_s, beat_length_s, meter_s, sample_set_s, sample_index_s, volume_s,
         uninherited_s, effects_s] \<Rightarrow>
          rbind (py_decimal time_s) (\<lambda>time_v.
          rbind (py_decimal beat_length_s) (\<lambda>beat_length.
          rbind (py_int meter_s) (\<lambda>meter_v.
          rbind (py_int sample_set_s) (\<lambda>sample_set_v.
          rbind (py_int sample_index_s) (\<lambda>sample_index_v.
          rbind (py_int volume_s) (\<lambda>volume_v.
          rbind (py_int uninherited_s) (\<lambda>uninherited_i.
          rbind (py_int effects_s) (\<lambda>effects_i.
            if py_bool uninherited_i then
              Inr \<lparr>time_tp_m = time_v, meter_m = meter_v, sampleSet = sample_set_v,
                   sampleIndex = sample_index_v, volume_tp_m = volume_v,
                   uninherited_m = True, effects_m = create_effects_m effects_i,
                   ext_tp_m = UninheritedTimingPoint beat_length\<rparr>
            else
              rbind (dec_div (- 100) beat_length) (\<lambda>sv.
              Inr \<lparr>time_tp_m = time_v, meter_m = meter_v, sampleSet = sample_set_v,
                   sampleIndex = sample_index_v, volume_tp_m = volume_v,
                   uninherited_m = False, effects_m = create_effects_m effects_i,
                   ext_tp_m = InheritedTimingPoint sv\<rparr>)))))))))
      | _ \<Rightarrow> Inl ValueError)"

definition colors_line_m :: "Colors_m \<Rightarrow> string \<Rightarrow> error + Colors_m" where
  "colors_line_m c line =
     (case py_split CHR '':'' line of
        [k, v] \<Rightarrow>
          (let key = strip k; value = strip v in
           rbind (map_r py_int (py_split CHR '','' value)) (\<lambda>color.
             if take 5 key = ''Combo'' then
               rbind (py_int (drop 5 key)) (\<lambda>color_index.
                 Inr (c\<lparr>colors_list_m := colors_list_m c @ [color]\<rparr>))
             else if key = ''SliderTrackOverride'' then
               Inr (c\<lparr>SliderTrackOverride := Some color\<rparr>)
             else if key = ''SliderBorder'' then
               Inr (c\<lparr>SliderBorder := Some color\<rparr>)
             else Inr c))
      | _ \<Rightarrow> Inl ValueError)"

definition create_hit_sample_m :: "string \<Rightarrow> error + HitSample_m" where
  "create_hit_sample_m x =
     (case py_split CHR '':'' x of
        [normal_set_s, addition_set_s, index_s, volume_s, filename_s] \<Rightarrow>
          rbind (py_int normal_set_s) (\<lambda>normal_set_i.
          rbind (py_int addition_set_s) (\<lambda>addition_set_i.
          rbind (py_int index_s) (\<lambda>index_i.
          rbind (py_int volume_s) (\<lambda>volume_i.
          rbind (TimingPointSampleSet_of normal_set_i) (\<lambda>ns.
          rbind (TimingPointSampleSet_of addition_set_i) (\<lambda>as.
            Inr \<lparr>normalSet = ns, additionSet = as, index_m = index_i, volume_m = volume_i,
                 filename_m = filename_s\<rparr>))))))
      | _ \<Rightarrow> Inl ValueError)"

definition trailing_hit_sample_m :: "string list \<Rightarrow> error + HitSample_m" where
  "trailing_hit_sample_m params =
     (if length params > 0 then create_hit_sample_m (last params) else Inr HitSample_init_m)"

definition slider_params_m :: "string list \<Rightarrow> error + (HitSample_m \<times> SliderFields_m)" where
  "slider_params_m object_params =
     (case object_params of
        curves_s # slides_s # length_s # edge_sounds_s # edge_sets_s # rest \<Rightarrow>
          (case py_split CHR ''|'' curves_s of
             [] \<Rightarrow> Inl ValueError
           | curve_type_s # curve_points_s \<Rightarrow>
               rbind (map_r parse_curve_point curve_points_s) (\<lambda>pts.
               rbind (py_int slides_s) (\<lambda>slides_v.
               rbind (py_decimal length_s) (\<lambda>length_v.
               rbind (map_r py_int (py_split CHR ''|'' edge_sounds_s)) (\<lambda>edge_sounds_v.
               rbind (map_r parse_edge_set (py_split CHR ''|'' edge_sets_s)) (\<lambda>edge_sets_v.
               rbind (trailing_hit_sample_m rest) (\<lambda>hs.
                 Inr (hs, \<lparr>curves_m = [\<lparr>curveType = curve_type_s, curvePoints = pts\<rparr>],
                           slides_m = slides_v, length_px_m = length_v,
                           edgeSounds = edge_sounds_v, edgeSets = edge_sets_v,
                           endTime = 0\<rparr>))))))))
      | _ \<Rightarrow> Inl ValueError)"

definition spinner_params_m :: "string list \<Rightarrow> error + (HitSample_m \<times> int)" where
  "spinner_params_m object_params =
     (case object_params of
        [] \<Rightarrow> Inl ValueError
      | end_time_s # rest \<Rightarrow>
          rbind (py_int end_time_s) (\<lambda>end_time_v.
          rbind (trailing_hit_sample_m rest) (\<lambda>hs. Inr (hs, end_time_v))))"

definition hit_object_line_m :: "string \<Rightarrow> error + HitObject_m option" where
  "hit_object_line_m line =
     (case py_split CHR '','' line of
        x_s # y_s # start_time_s # object_type_flag_s # hit_sound_s # object_params \<Rightarrow>
          rbind (py_int x_s) (\<lambda>x.
          rbind (py_int y_s) (\<lambda>y.
          rbind (py_int start_time_s) (\<lambda>start_time.
          rbind (py_int object_type_flag_s) (\<lambda>object_type_flag.
          rbind (object_type object_type_flag) (\<lambda>ot.
          rbind (py_int hit_sound_s) (\<lambda>hit_sound_i.
            if ot = HIT_CIRCLE then
              rbind (trailing_hit_sample_m object_params) (\<lambda>hs.
                Inr (Some \<lparr>x_pos_m = x, y_pos_m = y, time_m = start_time, obj_type_m = ot,
                           hitSound = create_hit_sound hit_sound_i,
                           newCombo = new_combo_of object_type_flag,
                           comboToSkip = combo_to_skip_of object_type_flag,
                           hitSample = hs, ext_m = HitCircle_m\<rparr>))
            else if ot = SLIDER then
              rbind (slider_params_m object_params) (\<lambda>(hs, sf).
                Inr (Some \<lparr>x_pos_m = x, y_pos_m = y, time_m = start_time, obj_type_m = ot,
                           hitSound = create_hit_sound hit_sound_i,
                           newCombo = new_combo_of object_type_flag,
                           comboToSkip = combo_to_skip_of object_type_flag,
                           hitSample = hs, ext_m = Slider_m sf\<rparr>))
            else if ot = SPINNER then
              rbind (spinner_params_m object_params) (\<lambda>(hs, end_time_v).
                Inr (Some \<lparr>x_pos_m = x, y_pos_m = y, time_m = start_time, obj_type_m = ot,
                           hitSound = create_hit_sound hit_sound_i,
                           newCombo = new_combo_of object_type_flag,
                           comboToSkip = combo_to_skip_of object_type_flag,
                           hitSample = hs, ext_m = Spinner_m end_time_v\<rparr>))
            else if object_type_flag = 128 then Inr None
            else Inr None))))))
      | _ \<Rightarrow> Inl ValueError)"

definition parse_line_m :: "Section option \<Rightarrow> Beatmap_m \<Rightarrow> string \<Rightarrow> error + (Section option \<times> Beatmap_m)" where
  "parse_line_m section beatmap raw_line =
     (let line = rstrip raw_line in
      if length line = 0 then Inr (section, beatmap)
      else if take 1 line = ''['' then Inr (section_header line section, beatmap)
      else if section = Some GENERAL then
        rbind (general_line_m (general_m beatmap) line) (\<lambda>g.
          Inr (section, beatmap\<lparr>general_m := g\<rparr>))
      else if section = Some EDITOR then
        rbind (editor_line_m (editor_m beatmap) line) (\<lambda>e.
          Inr (section, beatmap\<lparr>editor_m := e\<rparr>))
      else if section = Some METADATA then
        rbind (metadata_line_m (metadata_m beatmap) line) (\<lambda>m.
          Inr (section, beatmap\<lparr>metadata_m := m\<rparr>))
      else if section = Some DIFFICULTY then
        rbind (difficulty_line_m (difficulty_m beatmap) line) (\<lambda>d.
          Inr (section, beatmap\<lparr>difficulty_m := d\<rparr>))
      else if section = Some EVENTS then Inr (section, beatmap)
      else if section = Some TIMING_POINTS then
        rbind (timing_point_line_m line) (\<lambda>tp.
          Inr (section, beatmap\<lparr>timingPoints := timingPoints beatmap @ [tp]\<rparr>))
      else if section = Some COLORS then
        rbind (colors_line_m (colors_m beatmap) line) (\<lambda>c.
          Inr (section, beatmap\<lparr>colors_m := c\<rparr>))
      else if section = Some HIT_OBJECTS then
        rbind (hit_object_line_m line) (\<lambda>r.
          case r of
            None \<Rightarrow> Inr (section, beatmap)
          | Some ho \<Rightarrow> Inr (section, beatmap\<lparr>hit_objects_m := hit_objects_m beatmap @ [ho]\<rparr>))
      else Inr (section, beatmap))"

fun parse_lines_m :: "Section option \<Rightarrow> Beatmap_m \<Rightarrow> string list \<Rightarrow> error + (Section option \<times> Beatmap_m)" where
  "parse_lines_m section beatmap [] = Inr (section, beatmap)"
| "parse_lines_m section beatmap (l # ls) =
     (case parse_line_m section beatmap l of
        Inl e \<Rightarrow> Inl e
      | Inr (section', beatmap') \<Rightarrow> parse_lines_m section' beatmap' ls)"

definition load_m :: "int list list \<Rightarrow> string list \<Rightarrow> error + Beatmap_m" where
  "load_m shared_colors file_lines =
     rbind (parse_lines_m None (Beatmap_init_m shared_colors) file_lines) (\<lambda>(section, beatmap).
       Inr beatmap)"

section \<open>What the specification says, for comparison with the code\<close>

text \<open>
  The curve segmenter in the words of the specification: scan the sequence and start a
  new segment whenever a point equals the point immediately before it; the duplicate
  is the first point of the new segment.
\<close>

fun spec_segments :: "point list \<Rightarrow> point list list" where
  "spec_segments [] = [[]]"
| "spec_segments [p] = [[p]]"
| "spec_segments (p # q # ps) =
     (if q = p then [p] # spec_segments (q # ps)
      else (case spec_segments (q # ps) of
              [] \<Rightarrow> [[p]]
            | s # ss \<Rightarrow> (p # s) # ss))"

text \<open>The number of points of a sequence that equal the point before them.\<close>

fun adjacent_dups :: "point list \<Rightarrow> nat" where
  "adjacent_dups [] = 0"
| "adjacent_dups [p] = 0"
| "adjacent_dups (p # q # ps) = (if q = p then 1 else 0) + adjacent_dups (q # ps)"

text \<open>The position of the hit object put in front of the first segment.\<close>

definition prepend_position :: "point \<Rightarrow> point list list \<Rightarrow> point list list" where
  "prepend_position pos segs =
     (case segs of [] \<Rightarrow> [[pos]] | s # ss \<Rightarrow> (pos # s) # ss)"

text \<open>
  The key and the value of a line in the words of the specification: the line is split
  at its first colon and both sides are trimmed.
\<close>

definition before_colon :: "string \<Rightarrow> string" where
  "before_colon line = takeWhile (\<lambda>c. c \<noteq> CHR '':'') line"

definition after_colon :: "string \<Rightarrow> string" where
  "after_colon line = tl (dropWhile (\<lambda>c. c \<noteq> CHR '':'') line)"

text \<open>
  The renaming of the fields of \<^verbatim>\<open>src/beatmap.py\<close> to those of
  \<^verbatim>\<open>src/beatmap/main.py\<close>. A timing point keeps the velocity field of its kind. Two
  hit objects are the same when their common fields agree and, for a slider, when the
  curves of the first, put end to end, are the position followed by the points of the
  one curve of the second, whose letter names their type; the fields that only the
  resolver sets are not compared.
\<close>

definition rename_General :: "General \<Rightarrow> General_m" where
  "rename_General g =
     \<lparr>AudioFilename = audio_filename g, AudioLeadIn = audio_lead_in g,
      AudioHash = audio_hash g, PreviewTime = preview_time g, Countdown = countdown g,
      SampleSet = sample_set g, StackLeniency = stack_leniency g, Mode = mode g,
      LetterboxInBreaks = letterbox_in_breaks g, StoryFireInFront = story_fire_in_front g,
      UseSkinSprites = use_skin_sprites g, AlwaysShowPlayfield = always_show_playfield g,
      OverlayPosition = overlay_position g, SkinPreference = skin_preference g,
      EpilepsyWarning = epilepsy_warning g, CountdownOffset = countdown_offset g,
      SpecialStyle = special_style g, WidescreenStoryboard = widescreen_storyboard g,
      SamplesMatchPlaybackRate = samples_match_playback_rate g\<rparr>"

definition rename_Editor :: "Editor \<Rightarrow> Editor_m" where
  "rename_Editor e =
     \<lparr>DistanceSpacing = distance_spacing e, BeatDivisor = beat_divisor e,
      GridSize = grid_size e, TimelineZoom = timeline_zoom e, Bookmarks = bookmarks e\<rparr>"

definition rename_Metadata :: "Metadata \<Rightarrow> Metadata_m" where
  "rename_Metadata m =
     \<lparr>Title = title m, TitleUnicode = title_unicode m, Artist = artist m,
      ArtistUnicode = artist_unicode m, Creator = creator m, Version = version m,
      Source = source m, Tags = tags m, BeatmapID = beatmap_id m,
      BeatmapSetID = beatmap_set_id m\<rparr>"

definition rename_Difficulty :: "Difficulty \<Rightarrow> Difficulty_m" where
  "rename_Difficulty d =
     \<lparr>HPDrainRate = hp_drain_rate d, CircleSize = circle_size d,
      OverallDifficulty = overall_difficulty d, ApproachRate = approach_rate d,
      SliderMultiplier = slider_multiplier d, SliderTickRate = slider_tick_rate d\<rparr>"

definition rename_Effects :: "Effects \<Rightarrow> Effects_m" where
  "rename_Effects e = \<lparr>KiaiTime = kiai_time e, BarLine = bar_line e\<rparr>"

definition rename_TimingPoint :: "TimingPoint \<Rightarrow> TimingPoint_m" where
  "rename_TimingPoint tp =
     \<lparr>time_tp_m = time_tp tp, meter_m = meter tp, sampleSet = sample_set_tp tp,
      sampleIndex = sample_index tp, volume_tp_m = volume_tp tp,
      uninherited_m = uninherited tp, effects_m = rename_Effects (effects tp),
      ext_tp_m = (if uninherited tp then UninheritedTimingPoint (beat_duration tp)
                  else InheritedTimingPoint (sv_multiplier tp))\<rparr>"

definition rename_Colors :: "Colors \<Rightarrow> Colors_m" where
  "rename_Colors c =
     \<lparr>colors_list_m = colors_list c, SliderTrackOverride = slider_track_override c,
      SliderBorder = slider_border c\<rparr>"

definition rename_HitSample :: "HitSample \<Rightarrow> HitSample_m" where
  "rename_HitSample h =
     \<lparr>normalSet = normal_set h, additionSet = addition_set h, index_m = index h,
      volume_m = volume h, filename_m = filename h\<rparr>"

definition same_slider :: "int \<Rightarrow> int \<Rightarrow> SliderFields \<Rightarrow> SliderFields_m \<Rightarrow> bool" where
  "same_slider x y s s' =
     (slides_m s' = slides s \<and> length_px_m s' = length_px s
      \<and> edgeSounds s' = edge_sounds s \<and> edgeSets s' = edge_sets s
      \<and> (case curves_m s' of
            [c] \<Rightarrow> concat (map curve_points (curves s)) = (x, y) # curvePoints c
                   \<and> list_all (\<lambda>cv. CurveType_of (curveType c) = Inr (curve_type cv)) (curves s)
          | _ \<Rightarrow> False))"

definition same_hit_object :: "HitObject \<Rightarrow> HitObject_m \<Rightarrow> bool" where
  "same_hit_object h h' =
     (x_pos_m h' = x_pos h \<and> y_pos_m h' = y_pos h \<and> time_m h' = time h
      \<and> obj_type_m h' = obj_type h \<and> hitSound h' = hit_sound h
      \<and> newCombo h' = new_combo h \<and> comboToSkip h' = combo_to_skip h
      \<and> hitSample h' = rename_HitSample (hit_sample h)
      \<and> (case (ext h, ext_m h') of
            (HitCircle, HitCircle_m) \<Rightarrow> True
          | (Slider s, Slider_m s') \<Rightarrow> same_slider (x_pos h) (y_pos h) s s'
          | (Spinner e, Spinner_m e') \<Rightarrow> e' = e
          | _ \<Rightarrow> False))"

definition same_model :: "Beatmap \<Rightarrow> Beatmap_m \<Rightarrow> bool" where
  "same_model b m =
     (general_m m = rename_General (general b)
      \<and> editor_m m = rename_Editor (editor b)
      \<and> metadata_m m = rename_Metadata (metadata b)
      \<and> difficulty_m m = rename_Difficulty (difficulty b)
      \<and> events_m m = events b
      \<and> timingPoints m = map rename_TimingPoint (timing_points b)
      \<and> colors_m m = rename_Colors (colors b)
      \<and> list_all2 same_hit_object (hit_objects b) (hit_objects_m m))"


section \<open>Example files\<close>

text \<open>
  A file with the timing points and the slider of the example of the specification:
  an uninherited point at 0 with the beat length 500, an inherited point at 1000 with
  the beat length -50, which makes the multiplier 2, and a slider at 1000 with 2 slides
  and the length 350.
\<close>

definition slider_example_lines :: "string list" where
  "slider_example_lines =
     [''[Difficulty]'',
      ''SliderMultiplier:1.4'',
      ''[TimingPoints]'',
      ''0,500,4,2,1,60,1,0'',
      ''1000,-50,4,2,1,60,0,0'',
      ''[HitObjects]'',
      ''100,100,1000,2,0,L|450:100,2,350,0|0,0:0|0:0'']"

definition example_effects :: Effects where
  "example_effects = \<lparr>kiai_time = False, bar_line = False\<rparr>"

definition example_hit_sound :: HitSound where
  "example_hit_sound = \<lparr>normal = False, whistle = False, finish = False, clap = False\<rparr>"

definition slider_example_tp0 :: TimingPoint where
  "slider_example_tp0 =
     \<lparr>time_tp = 0, meter = 4, sample_set_tp = 2, sample_index = 1, volume_tp = 60,
      uninherited = True, effects = example_effects, beat_duration = 500,
      sv_multiplier = 1\<rparr>"

definition slider_example_tp1 :: TimingPoint where
  "slider_example_tp1 =
     \<lparr>time_tp = 1000, meter = 4, sample_set_tp = 2, sample_index = 1, volume_tp = 60,
      uninherited = False, effects = example_effects, beat_duration = 0,
      sv_multiplier = 2\<rparr>"

definition slider_example_fields :: SliderFields where
  "slider_example_fields =
     \<lparr>curves = [\<lparr>curve_type = LINEAR, curve_points = [(100, 100), (450, 100)]\<rparr>],
      slides = 2, length_px = 350, edge_sounds = [0, 0],
      edge_sets = [(DEFAULT, DEFAULT), (DEFAULT, DEFAULT)],
      end_time = 0, duration = 0, timing_point = None\<rparr>"

definition slider_example_object :: HitObject where
  "slider_example_object =
     \<lparr>x_pos = 100, y_pos = 100, time = 1000, obj_type = SLIDER,
      hit_sound = example_hit_sound, new_combo = False, combo_to_skip = 0,
      hit_sample = HitSample_init, ext = Slider slider_example_fields\<rparr>"

definition slider_example_parsed :: Beatmap where
  "slider_example_parsed =
     (Beatmap_init [])
       \<lparr>difficulty := Difficulty_init\<lparr>slider_multiplier := 7 / 5\<rparr>,
        timing_points := [slider_example_tp0, slider_example_tp1],
        hit_objects := [slider_example_object]\<rparr>"





text \<open>
  A file that starts with a line outside every section, as the files of the game do,
  and a line of the section \<^verbatim>\<open>HitObjects\<close> with the type flag 128.
\<close>

definition leading_data_lines :: "string list" where
  "leading_data_lines =
     [''osu file format v14'',
      ''[TimingPoints]'',
      ''0,500,4,2,1,60,1,0'',
      ''1000,-50,4,2,1,60,0,0'']"

definition leading_data_parsed :: Beatmap where
  "leading_data_parsed =
     (Beatmap_init [])\<lparr>timing_points := [slider_example_tp0, slider_example_tp1]\<rparr>"


section \<open>The bit-flag decoders\<close>

text \<open>
  The hit-sound and the effects decoders shift the value to the left before they test
  bit 0, so only the test of bit 0 itself can succeed.
\<close>

lemma create_hit_sound_value:
  "create_hit_sound x = \<lparr>normal = bit x 0, whistle = False, finish = False, clap = False\<rparr>"
  by (simp add: create_hit_sound_def and_one_eq bit_0 odd_iff_mod_2_eq_one)

lemma create_effects_value:
  "create_effects x = \<lparr>kiai_time = bit x 0, bar_line = False\<rparr>"
  by (simp add: create_effects_def and_one_eq bit_0 odd_iff_mod_2_eq_one)

text \<open>
  C1. The claim: the hit-sound decoder reports flag \<open>n\<close> of normal, whistle, finish,
  clap as present iff bit \<open>n\<close> of the value is set, and the effects decoder reports the
  omitted barline iff bit 3 is set. The code at the value 2, whose bit 1 is set, reports
  no whistle, and at the value 8, whose bit 3 is set, reports no clap and no omitted
  barline.
\<close>

theorem flag_decoders_miss_set_bits:
  "bit (2::int) 1 \<and> \<not> whistle (create_hit_sound 2)
   \<and> bit (4::int) 2 \<and> \<not> finish (create_hit_sound 4)
   \<and> bit (8::int) 3 \<and> \<not> clap (create_hit_sound 8)
   \<and> \<not> bar_line (create_effects 8)"
  by (simp add: create_hit_sound_def create_effects_def bit_iff_odd_drop_bit)

text \<open>The bits of the mask 139 are the bits 0, 1, 3 and 7.\<close>

lemma bit_139_iff: "bit (139::int) n = (n = 0 \<or> n = 1 \<or> n = 3 \<or> n = 7)"
  apply (cases n, simp)
  subgoal for n1 apply (cases n1, simp)
  subgoal for n2 apply (cases n2, simp)
  subgoal for n3 apply (cases n3, simp)
  subgoal for n4 apply (cases n4, simp)
  subgoal for n5 apply (cases n5, simp)
  subgoal for n6 apply (cases n6, simp)
  subgoal for n7 apply (cases n7, simp)
    apply (simp add: bit_Suc)
    done done done done done done done done

lemma and_139_eq_exp:
  assumes "k \<in> {0, 1, 3, 7}"
  shows "((M::int) AND 139 = 2 ^ k) = (\<forall>j \<in> {0, 1, 3, 7}. bit M j = (j = k))"
proof
  assume h: "M AND 139 = 2 ^ k"
  have "bit (M AND 139) j = (j = k)" for j
    by (simp add: h bit_exp_iff)
  then have m: "(bit M j \<and> bit (139::int) j) = (j = k)" for j
    by (simp add: bit_and_iff)
  show "\<forall>j \<in> {0, 1, 3, 7}. bit M j = (j = k)"
    using m [of 0] m [of 1] m [of 3] m [of 7] by (simp add: bit_139_iff)
next
  assume h: "\<forall>j \<in> {0, 1, 3, 7}. bit M j = (j = k)"
  show "M AND 139 = 2 ^ k"
  proof (rule bit_eqI)
    fix j
    show "bit (M AND 139) j = bit ((2::int) ^ k) j"
      using h assms by (auto simp add: bit_and_iff bit_139_iff bit_exp_iff)
  qed
qed

lemma combo_to_skip_of_zero: "combo_to_skip_of M = 0"
proof -
  have "push_bit 4 M AND (7::int) = take_bit 3 (push_bit 4 M)"
    by (simp add: take_bit_eq_mask mask_eq_exp_minus_1)
  then show ?thesis by (simp add: combo_to_skip_of_def take_bit_push_bit)
qed

text \<open>
  C2, as stated: for any mask the decoding of the type flag reports exactly the subset
  of circle, slider, spinner, hold whose bits 0, 1, 3, 7 are set, the new-combo flag is
  bit 2, and the combo-colour skip is \<open>(M >> 4) & 0b111\<close>. The mask 3 has the bits of
  circle and slider and the code raises \<^verbatim>\<open>ValueError\<close> on it, since the type is one
  member of an enum; the mask 17 has the skip 1 and the code computes 0.
\<close>

theorem object_type_flag_counterexample:
  "bit (3::int) 0 \<and> bit (3::int) 1 \<and> object_type 3 = Inl ValueError
   \<and> drop_bit 4 (17::int) AND 7 = 1 \<and> combo_to_skip_of 17 = 0"
  by (simp add: object_type_def HitObjectType_of_def combo_to_skip_of_def bit_iff_odd_drop_bit)

text \<open>
  C2, amended: the type flag decodes to a type exactly when one and only one of the
  bits 0, 1, 3, 7 is set, and the type is then the one of that bit; in every other case
  the decoding raises \<^verbatim>\<open>ValueError\<close>. The new-combo flag is bit 2 of the mask.
\<close>

theorem object_type_flag_decoding:
  "(object_type M = Inr HIT_CIRCLE) = (bit M 0 \<and> \<not> bit M 1 \<and> \<not> bit M 3 \<and> \<not> bit M 7)
   \<and> (object_type M = Inr SLIDER) = (\<not> bit M 0 \<and> bit M 1 \<and> \<not> bit M 3 \<and> \<not> bit M 7)
   \<and> (object_type M = Inr SPINNER) = (\<not> bit M 0 \<and> \<not> bit M 1 \<and> bit M 3 \<and> \<not> bit M 7)
   \<and> (object_type M = Inr HOLD_NOTE) = (\<not> bit M 0 \<and> \<not> bit M 1 \<and> \<not> bit M 3 \<and> bit M 7)
   \<and> (object_type M = Inl ValueError) =
       (of_bool (bit M 0) + of_bool (bit M 1) + of_bool (bit M 3) + of_bool (bit M 7) \<noteq> (1::nat))
   \<and> new_combo_of M = bit M 2"
proof -
  have nc: "new_combo_of M = bit M 2"
    by (simp add: new_combo_of_def bit_iff_and_push_bit_not_eq_0)
  show ?thesis
    using and_139_eq_exp [of 0 M] and_139_eq_exp [of 1 M] and_139_eq_exp [of 3 M]
      and_139_eq_exp [of 7 M] nc
    by (auto simp add: object_type_def HitObjectType_of_def)
qed

section \<open>The curve segmenter\<close>

lemma spec_segments_not_Nil: "spec_segments s \<noteq> []"
  by (induction s rule: spec_segments.induct) (auto split: list.splits)

lemma length_spec_segments: "length (spec_segments s) = 1 + adjacent_dups s"
proof (induction s rule: spec_segments.induct)
  case 1
  then show ?case by simp
next
  case (2 p)
  then show ?case by simp
next
  case (3 p q ps)
  then have ih: "length (spec_segments (q # ps)) = 1 + adjacent_dups (q # ps)"
    by blast
  show ?case
  proof (cases "q = p")
    case True
    with ih show ?thesis by simp
  next
    case False
    with ih spec_segments_not_Nil [of "q # ps"] show ?thesis
      by (cases "spec_segments (q # ps)") simp_all
  qed
qed

lemma bezier_loop_same:
  "bezier_loop acc cc p (p # ps) =
     bezier_loop (acc @ [\<lparr>curve_type = BEZIER, curve_points = cc\<rparr>]) [p] p ps"
  by simp

lemma bezier_loop_other:
  "p \<noteq> prev \<Longrightarrow> bezier_loop acc cc prev (p # ps) = bezier_loop acc (cc @ [p]) p ps"
  by (auto simp add: prod_eq_iff)

text \<open>
  The loop, started on a curve that ends with the previous point, emits the segments
  of the specification for the previous point followed by the remaining points, the
  first of them after what the curve held before.
\<close>

lemma bezier_loop_segments:
  "cc \<noteq> [] \<Longrightarrow> last cc = prev \<Longrightarrow>
   (case bezier_loop acc cc prev pts of
      (a, c) \<Rightarrow> a @ [\<lparr>curve_type = BEZIER, curve_points = c\<rparr>]) =
   acc @ map (\<lambda>s. \<lparr>curve_type = BEZIER, curve_points = s\<rparr>)
           (case spec_segments (prev # pts) of
              [] \<Rightarrow> []
            | s # ss \<Rightarrow> (butlast cc @ s) # ss)"
proof (induction pts arbitrary: acc cc prev)
  case Nil
  then show ?case using append_butlast_last_id [of cc] by simp
next
  case (Cons p ps)
  show ?case
  proof (cases "p = prev")
    case True
    have "(case bezier_loop (acc @ [\<lparr>curve_type = BEZIER, curve_points = cc\<rparr>]) [p] p ps of
            (a, c) \<Rightarrow> a @ [\<lparr>curve_type = BEZIER, curve_points = c\<rparr>]) =
          (acc @ [\<lparr>curve_type = BEZIER, curve_points = cc\<rparr>]) @
            map (\<lambda>s. \<lparr>curve_type = BEZIER, curve_points = s\<rparr>)
              (case spec_segments (p # ps) of [] \<Rightarrow> [] | s # ss \<Rightarrow> (butlast [p] @ s) # ss)"
      by (rule Cons.IH) simp_all
    moreover have "butlast cc @ [prev] = cc"
      using Cons.prems append_butlast_last_id [of cc] by simp
    ultimately show ?thesis
      using True by (simp add: bezier_loop_same del: bezier_loop.simps split: list.splits)
  next
    case False
    have "(case bezier_loop acc (cc @ [p]) p ps of
            (a, c) \<Rightarrow> a @ [\<lparr>curve_type = BEZIER, curve_points = c\<rparr>]) =
          acc @ map (\<lambda>s. \<lparr>curve_type = BEZIER, curve_points = s\<rparr>)
              (case spec_segments (p # ps) of [] \<Rightarrow> [] | s # ss \<Rightarrow> (butlast (cc @ [p]) @ s) # ss)"
      by (rule Cons.IH) simp_all
    moreover have "butlast cc @ [prev] = cc"
      using Cons.prems append_butlast_last_id [of cc] by simp
    ultimately show ?thesis
      using False spec_segments_not_Nil [of "p # ps"] bezier_loop_other [OF False, of acc cc ps]
      by (cases "spec_segments (p # ps)")
         (simp_all del: spec_segments.simps bezier_loop.simps add: spec_segments.simps(3) [of prev p ps])
  qed
qed

text \<open>
  C5, amended: for a B\'ezier slider the anchor points listed in the descriptor are
  split exactly at each listed point that equals the listed point before it; the
  duplicate is the first point of the new segment, the position of the hit object is
  put in front of the first segment and is not compared with the first listed point,
  and one curve of type B\'ezier is emitted per segment, in order. So the number of
  curves is one more than the number of listed points that repeat their predecessor:
  two for one such pair. The first listed point is not the sentinel \<open>(- 1, - 1)\<close>.
\<close>

theorem bezier_segments:
  assumes "pts = [] \<or> hd pts \<noteq> (- 1, - 1)"
  shows "make_curves BEZIER x y pts =
           map (\<lambda>s. \<lparr>curve_type = BEZIER, curve_points = s\<rparr>)
             (prepend_position (x, y) (spec_segments pts))
         \<and> length (make_curves BEZIER x y pts) = 1 + adjacent_dups pts"
proof (cases pts)
  case Nil
  then show ?thesis by (simp add: make_curves_def prepend_position_def)
next
  case (Cons p ps)
  then have ne: "p \<noteq> (- 1, - 1)"
    using assms by simp
  have "(case bezier_loop [] ([(x, y)] @ [p]) p ps of
            (a, c) \<Rightarrow> a @ [\<lparr>curve_type = BEZIER, curve_points = c\<rparr>]) =
          [] @ map (\<lambda>s. \<lparr>curve_type = BEZIER, curve_points = s\<rparr>)
              (case spec_segments (p # ps) of [] \<Rightarrow> [] | s # ss \<Rightarrow> (butlast ([(x, y)] @ [p]) @ s) # ss)"
    by (rule bezier_loop_segments) simp_all
  moreover have "bezier_loop [] [(x, y)] (- 1, - 1) (p # ps) = bezier_loop [] ([(x, y)] @ [p]) p ps"
    using ne by (rule bezier_loop_other)
  ultimately have eq: "make_curves BEZIER x y pts =
           map (\<lambda>s. \<lparr>curve_type = BEZIER, curve_points = s\<rparr>)
             (prepend_position (x, y) (spec_segments pts))"
    using Cons spec_segments_not_Nil [of "p # ps"]
    by (cases "spec_segments (p # ps)")
       (simp_all add: make_curves_def prepend_position_def del: spec_segments.simps bezier_loop.simps)
  have "length (prepend_position (x, y) (spec_segments pts)) = length (spec_segments pts)"
    using spec_segments_not_Nil [of pts] by (cases "spec_segments pts") (simp_all add: prepend_position_def)
  with eq show ?thesis by (simp add: length_spec_segments)
qed

text \<open>The descriptor \<^verbatim>\<open>B|1:1|2:2|2:2|3:3\<close> of a slider at \<open>(5, 5)\<close> gives two curves.\<close>

theorem bezier_segments_witness:
  "(([(1, 1), (2, 2), (2, 2), (3, 3)] :: point list) = [] \<or> hd [(1, 1), (2, 2), (2, 2), (3, 3)] \<noteq> (- 1 :: int, - 1 :: int))
   \<and> make_curves BEZIER 5 5 [(1, 1), (2, 2), (2, 2), (3, 3)] =
       [\<lparr>curve_type = BEZIER, curve_points = [(5, 5), (1, 1), (2, 2)]\<rparr>,
        \<lparr>curve_type = BEZIER, curve_points = [(2, 2), (3, 3)]\<rparr>]
   \<and> length (make_curves BEZIER 5 5 [(1, 1), (2, 2), (2, 2), (3, 3)]) = 2"
  using bezier_segments [of "[(1, 1), (2, 2), (2, 2), (3, 3)]" 5 5]
  by (simp add: prepend_position_def)

text \<open>
  C5, as stated: the sequence with the position in front is split at each point that
  equals the point before it. For a slider at \<open>(0, 0)\<close> whose first listed point is
  \<open>(0, 0)\<close> the sequence has two consecutive identical points and the specification
  splits it in two; the code emits one curve.
\<close>

theorem bezier_segments_counterexample:
  "map curve_points (make_curves BEZIER 0 0 [(0, 0), (1, 1)]) = [[(0, 0), (0, 0), (1, 1)]]
   \<and> spec_segments ((0, 0) # [(0, 0), (1, 1)]) = [[(0, 0)], [(0, 0), (1, 1)]]"
  by (simp add: make_curves_def)

section \<open>The timing point resolver\<close>











text \<open>
  C3. With the timing points (time 0, uninherited, beat duration 500) and (time 1000,
  inherited, multiplier 2), in either order in the beatmap, the slider multiplier 1.4
  and one slider at 1000 with 2 slides and the length 350, the resolver binds the
  slider to the second point, which has borrowed the beat duration 500, and sets the
  duration 1250 and the end time 2250.
\<close>

theorem slider_resolution_example:
  assumes "timing_points beatmap = [tp0, tp1] \<or> timing_points beatmap = [tp1, tp0]"
    and "time_tp tp0 = 0" and "uninherited tp0" and "beat_duration tp0 = 500"
    and "time_tp tp1 = 1000" and "\<not> uninherited tp1" and "sv_multiplier tp1 = 2"
    and "slider_multiplier (difficulty beatmap) = 7 / 5"
    and "hit_objects beatmap = [ho]" and "obj_type ho = SLIDER" and "ext ho = Slider s"
    and "time ho = 1000" and "slides s = 2" and "length_px s = 350"
  shows "\<exists>tps' k. populate_slider_properties (populate_timing_point_properties beatmap) =
           Inr (beatmap\<lparr>timing_points := tps',
                  hit_objects := [ho\<lparr>ext := Slider (s\<lparr>end_time := 2250, duration := 1250,
                                                      timing_point := Some k\<rparr>)\<rparr>]\<rparr>)
         \<and> k < length tps' \<and> tps' ! k = tp1\<lparr>beat_duration := 500\<rparr>"
  using assms(1)
proof
  assume tps: "timing_points beatmap = [tp0, tp1]"
  have o: "time_order [tp0, tp1] = [0, 1]" "time_order [tp0, tp1\<lparr>beat_duration := 500\<rparr>] = [0, 1]"
    using assms by (simp_all add: time_order_def)
  have "populate_slider_properties (populate_timing_point_properties beatmap) =
           Inr (beatmap\<lparr>timing_points := [tp0, tp1\<lparr>beat_duration := 500\<rparr>],
                  hit_objects := [ho\<lparr>ext := Slider (s\<lparr>end_time := 2250, duration := 1250,
                                                      timing_point := Some 1\<rparr>)\<rparr>]\<rparr>)"
    by (simp add: assms(2-) tps o populate_slider_properties_def
          populate_timing_point_properties_def hit_object_order_def resolve_hit_object_def
          dec_div_def)
  then show ?thesis
    by (intro exI [of _ "[tp0, tp1\<lparr>beat_duration := 500\<rparr>]"] exI [of _ 1]) simp
next
  assume tps: "timing_points beatmap = [tp1, tp0]"
  have o: "time_order [tp1, tp0] = [1, 0]" "time_order [tp1\<lparr>beat_duration := 500\<rparr>, tp0] = [1, 0]"
    using assms by (simp_all add: time_order_def)
  have "populate_slider_properties (populate_timing_point_properties beatmap) =
           Inr (beatmap\<lparr>timing_points := [tp1\<lparr>beat_duration := 500\<rparr>, tp0],
                  hit_objects := [ho\<lparr>ext := Slider (s\<lparr>end_time := 2250, duration := 1250,
                                                      timing_point := Some 0\<rparr>)\<rparr>]\<rparr>)"
    by (simp add: assms(2-) tps o populate_slider_properties_def
          populate_timing_point_properties_def hit_object_order_def resolve_hit_object_def
          dec_div_def)
  then show ?thesis
    by (intro exI [of _ "[tp1\<lparr>beat_duration := 500\<rparr>, tp0]"] exI [of _ 0]) simp
qed

text \<open>What the loop over the lines makes of the example files.\<close>

lemma slider_example_parse:
  "parse_lines None (Beatmap_init []) slider_example_lines = Inr (Some HIT_OBJECTS, slider_example_parsed)"
  by code_simp



text \<open>
  The example file loads with the duration 1250 and the end time 2250 on its slider,
  bound to the inherited point.
\<close>

theorem slider_resolution_example_witness:
  "\<exists>tps' k. load [] slider_example_lines =
           Inr (slider_example_parsed\<lparr>timing_points := tps',
                  hit_objects := [slider_example_object\<lparr>ext := Slider (slider_example_fields\<lparr>end_time := 2250, duration := 1250,
                                                      timing_point := Some k\<rparr>)\<rparr>]\<rparr>)
         \<and> k < length tps' \<and> tps' ! k = slider_example_tp1\<lparr>beat_duration := 500\<rparr>"
proof -
  have "\<exists>tps' k.
          populate_slider_properties (populate_timing_point_properties slider_example_parsed) =
            Inr (slider_example_parsed
                   \<lparr>timing_points := tps',
                    hit_objects :=
                      [slider_example_object
                         \<lparr>ext := Slider (slider_example_fields
                                          \<lparr>end_time := 2250, duration := 1250,
                                           timing_point := Some k\<rparr>)\<rparr>]\<rparr>)
          \<and> k < length tps' \<and> tps' ! k = slider_example_tp1\<lparr>beat_duration := 500\<rparr>"
    by (rule slider_resolution_example [of _ slider_example_tp0])
       (simp_all add: slider_example_parsed_def slider_example_tp0_def slider_example_tp1_def
          slider_example_object_def slider_example_fields_def Difficulty_init_def)
  then show ?thesis
    by (simp add: load_def slider_example_parse)
qed






section \<open>Key and value lines\<close>

text \<open>
  \<^verbatim>\<open>split\<close> returns one more string than the line has separators, and the first
  string is the line up to its first separator.
\<close>

lemma py_split_not_Nil: "py_split sep s \<noteq> []"
  by (induction s) (auto split: list.splits)

lemma length_py_split: "length (py_split sep s) = count_list s sep + 1"
  by (induction s) (auto split: list.splits simp add: py_split_not_Nil)

lemma py_split_first:
  "py_split sep s =
     takeWhile (\<lambda>c. c \<noteq> sep) s #
       (if sep \<in> set s then py_split sep (tl (dropWhile (\<lambda>c. c \<noteq> sep) s)) else [])"
proof (induction s)
  case Nil
  then show ?case by simp
next
  case (Cons c cs)
  then show ?case
    using py_split_not_Nil [of sep cs] by (cases "py_split sep cs") auto
qed

lemma py_split_no_sep: "sep \<notin> set s \<Longrightarrow> py_split sep s = [s]"
  by (induction s) auto

lemma count_after_first:
  "sep \<in> set s \<Longrightarrow>
     count_list (tl (dropWhile (\<lambda>c. c \<noteq> sep) s)) sep + 1 = count_list s sep"
  by (induction s) auto

lemma count_list_0_iff_notin: "(count_list s sep = 0) = (sep \<notin> set s)"
  by (induction s) auto

lemma py_split_one_sep:
  assumes "count_list s sep = 1"
  shows "py_split sep s =
           [takeWhile (\<lambda>c. c \<noteq> sep) s, tl (dropWhile (\<lambda>c. c \<noteq> sep) s)]"
proof -
  have m: "sep \<in> set s"
    using assms count_list_0_iff_notin [of s sep] by auto
  then have "count_list (tl (dropWhile (\<lambda>c. c \<noteq> sep) s)) sep = 0"
    using count_after_first [of sep s] assms by simp
  then have "sep \<notin> set (tl (dropWhile (\<lambda>c. c \<noteq> sep) s))"
    by (simp add: count_list_0_iff_notin)
  then show ?thesis
    using m py_split_first [of sep s] by (simp add: py_split_no_sep)
qed

lemma unpack_two_fails:
  assumes "length xs \<noteq> 2"
  shows "(case xs of [k, v] \<Rightarrow> f k v | _ \<Rightarrow> Inl ValueError) = Inl ValueError"
  using assms by (auto split: list.splits)

text \<open>
  C6, as stated: every line of the sections \<^verbatim>\<open>General\<close>, \<^verbatim>\<open>Editor\<close>, \<^verbatim>\<open>Metadata\<close>
  and \<^verbatim>\<open>Difficulty\<close> is split on its first colon only, also when the value has more
  colons. Split so, the line \<^verbatim>\<open>AudioFilename: a:b\<close> has the key \<^verbatim>\<open>AudioFilename\<close> and
  the value \<^verbatim>\<open>a:b\<close>; the code raises \<^verbatim>\<open>ValueError\<close> on it in \<^verbatim>\<open>General\<close>, and on a
  line with two colons in \<^verbatim>\<open>Editor\<close> and in \<^verbatim>\<open>Difficulty\<close>.
\<close>

theorem key_value_lines_counterexample:
  "strip (before_colon ''AudioFilename: a:b'') = ''AudioFilename''
   \<and> strip (after_colon ''AudioFilename: a:b'') = ''a:b''
   \<and> general_line General_init ''AudioFilename: a:b'' = Inl ValueError
   \<and> editor_line Editor_init ''Bookmarks: 1:2'' = Inl ValueError
   \<and> difficulty_line Difficulty_init ''CircleSize: 4:5'' = Inl ValueError"
  by (simp add: before_colon_def after_colon_def strip_def rstrip_def py_isspace_def
        general_line_def editor_line_def difficulty_line_def)

text \<open>
  C6, amended: a line of \<^verbatim>\<open>Metadata\<close> is split on its first colon only, both sides
  trimmed, also when the value has more colons, and the key \<^verbatim>\<open>Title\<close> stores the value
  as the title. A line of \<^verbatim>\<open>General\<close>, \<^verbatim>\<open>Editor\<close> or \<^verbatim>\<open>Difficulty\<close> with exactly
  one colon is split at that colon, both sides trimmed in \<^verbatim>\<open>General\<close> and handed on as
  they are in \<^verbatim>\<open>Editor\<close> and \<^verbatim>\<open>Difficulty\<close>, whose values are numbers; with no colon
  or with more than one the line raises \<^verbatim>\<open>ValueError\<close>.
\<close>

theorem key_value_lines:
  "(CHR '':'' \<in> set l_meta \<longrightarrow>
      metadata_line m l_meta =
        metadata_fields (strip (before_colon l_meta)) (strip (after_colon l_meta)) m)
   \<and> metadata_fields ''Title'' v m = Inr (m\<lparr>title := v\<rparr>)
   \<and> (count_list l_one CHR '':'' = 1 \<longrightarrow>
        general_line g l_one =
          general_fields (strip (before_colon l_one)) (strip (after_colon l_one)) g
        \<and> editor_line e l_one = editor_fields (before_colon l_one) (after_colon l_one) e
        \<and> difficulty_line d l_one =
            difficulty_fields (before_colon l_one) (after_colon l_one) d)
   \<and> (count_list l_other CHR '':'' \<noteq> 1 \<longrightarrow>
        general_line g l_other = Inl ValueError
        \<and> editor_line e l_other = Inl ValueError
        \<and> difficulty_line d l_other = Inl ValueError)"
proof -
  have 1: "CHR '':'' \<in> set l_meta \<longrightarrow>
      metadata_line m l_meta =
        metadata_fields (strip (before_colon l_meta)) (strip (after_colon l_meta)) m"
    by (simp add: metadata_line_def py_split1_def before_colon_def after_colon_def)
  have 2: "metadata_fields ''Title'' v m = Inr (m\<lparr>title := v\<rparr>)"
    by (simp add: metadata_fields_def)
  have 3: "count_list l_one CHR '':'' = 1 \<longrightarrow>
        general_line g l_one =
          general_fields (strip (before_colon l_one)) (strip (after_colon l_one)) g
        \<and> editor_line e l_one = editor_fields (before_colon l_one) (after_colon l_one) e
        \<and> difficulty_line d l_one =
            difficulty_fields (before_colon l_one) (after_colon l_one) d"
    by (simp add: general_line_def editor_line_def difficulty_line_def py_split_one_sep
          before_colon_def after_colon_def)
  have 4: "count_list l_other CHR '':'' \<noteq> 1 \<longrightarrow>
        general_line g l_other = Inl ValueError
        \<and> editor_line e l_other = Inl ValueError
        \<and> difficulty_line d l_other = Inl ValueError"
    unfolding general_line_def editor_line_def difficulty_line_def
    by (intro impI conjI unpack_two_fails) (simp_all add: length_py_split)
  from 1 2 3 4 show ?thesis by blast
qed

text \<open>The line \<^verbatim>\<open>Title: Song: Subtitle\<close> gives the title \<^verbatim>\<open>Song: Subtitle\<close>.\<close>

theorem key_value_lines_witness:
  "CHR '':'' \<in> set ''Title: Song: Subtitle''
   \<and> metadata_line Metadata_init ''Title: Song: Subtitle'' =
       Inr (Metadata_init\<lparr>title := ''Song: Subtitle''\<rparr>)
   \<and> count_list ''GridSize:32'' CHR '':'' = 1
   \<and> editor_line Editor_init ''GridSize:32'' = Inr (Editor_init\<lparr>grid_size := 32\<rparr>)
   \<and> count_list ''GridSize:32:1'' CHR '':'' \<noteq> 1
   \<and> editor_line Editor_init ''GridSize:32:1'' = Inl ValueError"
  using key_value_lines [of "''Title: Song: Subtitle''" Metadata_init "''Song: Subtitle''"
          "''GridSize:32''" General_init Editor_init Difficulty_init "''GridSize:32:1''"]
  by (simp add: before_colon_def after_colon_def strip_def rstrip_def py_isspace_def
        editor_fields_def py_int_def is_digit_def digit_val_def)

section \<open>The section router\<close>

lemma leading_data_parse:
  "parse_lines None (Beatmap_init []) leading_data_lines = Inr (Some TIMING_POINTS, leading_data_parsed)"
  by code_simp

text \<open>
  C7, as stated: a data line met while no section is active makes the load fail with a
  missing-context error. The first line of the example file is such a line; the loop
  leaves the state as it is on it, and the file loads.
\<close>

theorem data_line_without_section_counterexample:
  "parse_line None (Beatmap_init []) (leading_data_lines ! 0) = Inr (None, Beatmap_init [])
   \<and> load [] leading_data_lines =
       Inr (leading_data_parsed
              \<lparr>timing_points := [slider_example_tp0, slider_example_tp1\<lparr>beat_duration := 500\<rparr>]\<rparr>)"
proof -
  have 1: "parse_line None (Beatmap_init []) (leading_data_lines ! 0) = Inr (None, Beatmap_init [])"
    by (simp add: leading_data_lines_def parse_line_def rstrip_def py_isspace_def)
  have tp: "timing_points leading_data_parsed = [slider_example_tp0, slider_example_tp1]"
    and ho: "hit_objects leading_data_parsed = []"
    by (simp_all add: leading_data_parsed_def Beatmap_init_def)
  have o: "time_order [slider_example_tp0, slider_example_tp1] = [0, 1]"
    "time_order [slider_example_tp0, slider_example_tp1\<lparr>beat_duration := 500\<rparr>] = [0, 1]"
    by (simp_all add: time_order_def slider_example_tp0_def slider_example_tp1_def)
  have v: "uninherited slider_example_tp0" "\<not> uninherited slider_example_tp1"
    "beat_duration slider_example_tp0 = 500"
    by (simp_all add: slider_example_tp0_def slider_example_tp1_def)
  have "populate_slider_properties (populate_timing_point_properties leading_data_parsed) =
       Inr (leading_data_parsed
              \<lparr>timing_points := [slider_example_tp0, slider_example_tp1\<lparr>beat_duration := 500\<rparr>]\<rparr>)"
    by (simp add: populate_slider_properties_def populate_timing_point_properties_def tp ho o v
          hit_object_order_def)
  with 1 show ?thesis
    by (simp add: load_def leading_data_parse)
qed

text \<open>
  C7, amended: a line that is not blank and does not start with a bracket, met while
  no section is active, is skipped: the section and the beatmap stay as they are and no
  error is raised.
\<close>

theorem data_line_without_section:
  assumes "rstrip raw_line \<noteq> []" and "take 1 (rstrip raw_line) \<noteq> ''[''"
  shows "parse_line None beatmap raw_line = Inr (None, beatmap)"
  using assms by (simp add: parse_line_def Let_def)

theorem data_line_without_section_witness:
  "rstrip ''osu file format v14'' \<noteq> [] \<and> take 1 (rstrip ''osu file format v14'') \<noteq> ''[''
   \<and> parse_line None (Beatmap_init []) ''osu file format v14'' = Inr (None, Beatmap_init [])"
  using data_line_without_section [of "''osu file format v14''" "Beatmap_init []"]
  by (simp add: rstrip_def py_isspace_def)










end
